theory Spec2Isabelle
  imports Main "HOL-Library.Word" "HOL-Library.AList"
begin

section \<open>Conventions of the embedding\<close>

text \<open>
  The client (\<^verbatim>\<open>src/index.py\<close>) is a Python program. Its functions are embedded as HOL
  functions under these conventions.

  \<^item> \<^verbatim>\<open>bytes\<close> is a list of 8-bit words. \<^verbatim>\<open>str\<close> is a \<open>string\<close> holding the UTF-8 code
    units of the text, so \<^verbatim>\<open>s.encode('utf-8')\<close> maps every character to the byte of the
    same value.
  \<^item> Library calls whose code is not in the repository (\<^verbatim>\<open>hashlib.sha256\<close>, \<^verbatim>\<open>base64\<close>,
    the RSA signing of \<^verbatim>\<open>cryptography\<close>, \<^verbatim>\<open>mimetypes\<close>, \<^verbatim>\<open>os.path\<close>) are parameters,
    collected in the record \<open>env\<close> together with the clock readings and the faults of the
    file system and the database.
  \<^item> An attribute of \<^verbatim>\<open>self\<close> is a field of the record \<open>client\<close>; a method that mutates
    \<^verbatim>\<open>self\<close> takes the record and returns the updated one.
  \<^item> A command handler that blocks on a \<^verbatim>\<open>threading.Event\<close> is cut at the wait: the
    part before the wait returns a \<open>handler_step\<close>, the part after the wait
    (\<open>resume\<close>) takes the delay after which the event was set.
  \<^item> A loop bounded by the wall clock or by a cancel flag takes \<open>fuel\<close>, the number of
    iterations that the clock and the flag allow.
  \<^item> Times (\<^verbatim>\<open>time.time()\<close>, \<^verbatim>\<open>blocked_until\<close>) are exact numbers of seconds.
\<close>

type_synonym byte = "8 word"
type_synonym bytes = "byte list"

abbreviation LF :: char where "LF \<equiv> CHR 0x0A"
abbreviation CR :: char where "CR \<equiv> CHR 0x0D"

definition encode :: "string \<Rightarrow> bytes" where
  \<comment> \<open>\<^verbatim>\<open>s.encode('utf-8')\<close> and the byte literals \<^verbatim>\<open>b"..."\<close>\<close>
  "encode s = map (\<lambda>c. of_nat (of_char c)) s"

definition decode :: "bytes \<Rightarrow> string" where
  \<comment> \<open>\<^verbatim>\<open>b.decode('utf-8')\<close>\<close>
  "decode b = map (\<lambda>w. char_of (unat w)) b"

definition hexdigit :: "nat \<Rightarrow> char" where
  "hexdigit n = ''0123456789abcdef'' ! (n mod 16)"

definition hexdigest :: "bytes \<Rightarrow> string" where
  \<comment> \<open>the lowercase hexadecimal form of a digest: \<^verbatim>\<open>hashlib.sha256(x).hexdigest()\<close> is
      \<open>hexdigest (sha256 x)\<close>\<close>
  "hexdigest d = concat (map (\<lambda>b. [hexdigit (unat b div 16), hexdigit (unat b mod 16)]) d)"

fun str_nat :: "nat \<Rightarrow> string" where
  "str_nat n = (if n < 10 then [hexdigit n] else str_nat (n div 10) @ [hexdigit (n mod 10)])"
declare str_nat.simps [simp del]

definition str_int :: "int \<Rightarrow> string" where
  \<comment> \<open>\<^verbatim>\<open>str(i)\<close> and \<^verbatim>\<open>f"{i}"\<close> of an integer\<close>
  "str_int i = (if i < 0 then CHR ''-'' # str_nat (nat (- i)) else str_nat (nat i))"

section \<open>CLIPowSolver\<close>

subsection \<open>\<^verbatim>\<open>leading_zero_bits\<close>\<close>

fun bin :: "nat \<Rightarrow> string" where
  \<comment> \<open>\<^verbatim>\<open>bin(n)[2:]\<close>: the binary digits of \<open>n\<close>, most significant first, no leading zero\<close>
  "bin n = (if n < 2 then [if n = 0 then CHR ''0'' else CHR ''1'']
            else bin (n div 2) @ [if n mod 2 = 0 then CHR ''0'' else CHR ''1''])"
declare bin.simps [simp del]

definition zfill :: "nat \<Rightarrow> string \<Rightarrow> string" where
  \<comment> \<open>\<^verbatim>\<open>s.zfill(width)\<close> on a string of digits\<close>
  "zfill width s = replicate (width - length s) CHR ''0'' @ s"

fun index :: "string \<Rightarrow> char \<Rightarrow> nat option" where
  \<comment> \<open>\<^verbatim>\<open>s.index(c)\<close>; \<open>None\<close> is the \<^verbatim>\<open>ValueError\<close> of a missing character\<close>
  "index [] c = None"
| "index (x # xs) c = (if x = c then Some 0 else map_option Suc (index xs c))"

fun lzb_loop :: "nat \<Rightarrow> bytes \<Rightarrow> nat option" where
  \<comment> \<open>the \<^verbatim>\<open>for byte in h\<close> loop, with the running \<^verbatim>\<open>count\<close>\<close>
  "lzb_loop count [] = Some count"
| "lzb_loop count (byte # h) =
     (if byte = 0 then lzb_loop (count + 8) h
      else map_option (\<lambda>i. count + i) (index (zfill 8 (bin (unat byte))) CHR ''1''))"

definition leading_zero_bits :: "bytes \<Rightarrow> nat option" where
  "leading_zero_bits h = lzb_loop 0 h"

text \<open>
  What the specification asks of \<open>leading_zero_bits\<close>, in its own words: the number of
  leading zero bits of the byte string, read as one string of bits, each byte most
  significant bit first.
\<close>

definition bits_of_byte :: "byte \<Rightarrow> bool list" where
  "bits_of_byte b = map (bit b) [7, 6, 5, 4, 3, 2, 1, 0]"

definition bit_string :: "bytes \<Rightarrow> bool list" where
  "bit_string h = concat (map bits_of_byte h)"

definition count_leading_zero_bits :: "bytes \<Rightarrow> nat" where
  "count_leading_zero_bits h = length (takeWhile Not (bit_string h))"

subsection \<open>\<^verbatim>\<open>solve_challenge\<close>\<close>

definition uint64_be :: "nat \<Rightarrow> bytes" where
  \<comment> \<open>the eight bytes of \<open>n\<close>, most significant first\<close>
  "uint64_be n = map (\<lambda>i. of_nat (n div 256 ^ i)) [7, 6, 5, 4, 3, 2, 1, 0]"

definition struct_pack_Q :: "nat \<Rightarrow> bytes option" where
  \<comment> \<open>\<^verbatim>\<open>struct.pack(">Q", nonce)\<close>; \<open>None\<close> is the \<^verbatim>\<open>struct.error\<close> of a value that does
      not fit 64 bits\<close>
  "struct_pack_Q n = (if n < 2 ^ 64 then Some (uint64_be n) else None)"

text \<open>
  The mining loop of \<^verbatim>\<open>solve_thread\<close>. \<open>H\<close> is \<^verbatim>\<open>hashlib.sha256(data).digest()\<close>. The loop
  runs while \<^verbatim>\<open>self.is_solving\<close> holds and fewer than 600 seconds have passed: \<open>fuel\<close> is
  the number of iterations this allows. \<open>Some n\<close> is \<^verbatim>\<open>nonce_solution = str(n)\<close> with
  \<^verbatim>\<open>solution_found\<close> set; \<open>None\<close> is a run that ends with no solution (time limit, cancel,
  or an exception caught by the \<^verbatim>\<open>except\<close> of the thread). Progress output, the hash
  counters and the cooperative \<^verbatim>\<open>sleep\<close> do not influence the nonce and are left out.
\<close>

fun solve_loop :: "(bytes \<Rightarrow> bytes) \<Rightarrow> bytes \<Rightarrow> int \<Rightarrow> nat \<Rightarrow> nat \<Rightarrow> nat option" where
  "solve_loop H challenge_bytes target_bits 0 nonce = None"
| "solve_loop H challenge_bytes target_bits (Suc fuel) nonce =
     (case struct_pack_Q nonce of
        None \<Rightarrow> None
      | Some packed \<Rightarrow>
          (case leading_zero_bits (H (challenge_bytes @ packed)) of
             None \<Rightarrow> None
           | Some lzb \<Rightarrow>
               if int lzb \<ge> target_bits then Some nonce
               else solve_loop H challenge_bytes target_bits fuel (nonce + 1)))"

definition solve_challenge ::
  "(bytes \<Rightarrow> bytes) \<Rightarrow> (string \<Rightarrow> string + bytes) \<Rightarrow> bool \<Rightarrow> nat \<Rightarrow> string \<Rightarrow> int
     \<Rightarrow> nat option" where
  \<comment> \<open>\<open>solving\<close>: a solver thread is already running and the call returns at once;
      \<open>b64decode\<close> is \<^verbatim>\<open>base64.b64decode\<close>, with \<open>Inl\<close> the exception it raises\<close>
  "solve_challenge H b64decode solving fuel challenge target_bits =
     (if solving then None
      else case b64decode challenge of
             Inl e \<Rightarrow> None
           | Inr challenge_bytes \<Rightarrow> solve_loop H challenge_bytes target_bits fuel 0)"

section \<open>ControllerFileMonitor: the log protocol\<close>

text \<open>
  The content of a log file is a \<open>string\<close>; a file that does not exist is \<open>None\<close>. Files
  are opened in text mode: reading translates \<^verbatim>\<open>\r\n\<close> and \<^verbatim>\<open>\r\<close> to \<^verbatim>\<open>\n\<close>, and
  \<^verbatim>\<open>readlines\<close> cuts after every \<^verbatim>\<open>\n\<close>. \<open>isspace\<close> is \<^verbatim>\<open>str.isspace\<close> on ASCII. Writing
  the log is taken to succeed.
\<close>

definition isspace :: "char \<Rightarrow> bool" where
  "isspace c = (of_char c \<in> set [9, 10, 11, 12, 13, 28, 29, 30, 31, 32 :: nat])"

definition strip :: "string \<Rightarrow> string" where
  "strip s = rev (dropWhile isspace (rev (dropWhile isspace s)))"

fun split_loop :: "string \<Rightarrow> string \<Rightarrow> string list" where
  "split_loop w [] = (if w = [] then [] else [w])"
| "split_loop w (c # cs) =
     (if isspace c then (if w = [] then split_loop [] cs else w # split_loop [] cs)
      else split_loop (w @ [c]) cs)"

definition split :: "string \<Rightarrow> string list" where
  \<comment> \<open>\<^verbatim>\<open>s.split()\<close>: the words between runs of whitespace\<close>
  "split s = split_loop [] s"

definition lower :: "string \<Rightarrow> string" where
  \<comment> \<open>\<^verbatim>\<open>s.lower()\<close> on ASCII letters\<close>
  "lower s = map (\<lambda>c. if 65 \<le> (of_char c :: nat) \<and> (of_char c :: nat) \<le> 90
                        then char_of ((of_char c :: nat) + 32) else c) s"

fun universal_newlines :: "string \<Rightarrow> string" where
  "universal_newlines [] = []"
| "universal_newlines (c # cs) =
     (if c = CR then
        (case cs of
           [] \<Rightarrow> [LF]
         | d # ds \<Rightarrow> if d = LF then LF # universal_newlines ds else LF # universal_newlines cs)
      else c # universal_newlines cs)"

fun lines_loop :: "string \<Rightarrow> string \<Rightarrow> string list" where
  "lines_loop cur [] = (if cur = [] then [] else [cur])"
| "lines_loop cur (c # cs) =
     (if c = LF then (cur @ [c]) # lines_loop [] cs else lines_loop (cur @ [c]) cs)"

definition readlines :: "string \<Rightarrow> string list" where
  "readlines content = lines_loop [] (universal_newlines content)"

definition write_log_status :: "string \<Rightarrow> string \<Rightarrow> string" where
  \<comment> \<open>\<^verbatim>\<open>_write_log_status(log_file, status, message)\<close>: the new content of the file\<close>
  "write_log_status status message =
     status @ [LF] @ (if message \<noteq> [] then message @ [LF] else [])"

definition append_log_result :: "string \<Rightarrow> string \<Rightarrow> string" where
  \<comment> \<open>\<^verbatim>\<open>_append_log_result(log_file, result)\<close> on a file holding \<open>content\<close>\<close>
  "append_log_result content result = content @ result @ [LF]"

record log_data =
  log_status :: string
  log_message :: string
  log_result :: string

definition read_log_file :: "string option \<Rightarrow> log_data option" where
  \<comment> \<open>\<^verbatim>\<open>_read_log_file\<close>\<close>
  "read_log_file file =
     (case file of
        None \<Rightarrow> None
      | Some content \<Rightarrow>
          (let lines = readlines content in
           if length lines \<ge> 1 then
             Some \<lparr> log_status = strip (lines ! 0),
                    log_message = (if length lines > 1 then strip (lines ! 1) else []),
                    log_result = (if length lines > 2 then strip (lines ! 2) else []) \<rparr>
           else None))"

text \<open>
  What a handler does while its output is captured: it returns, having printed to
  \<^verbatim>\<open>stdout\<close> and \<^verbatim>\<open>stderr\<close>; it raises an \<^verbatim>\<open>Exception\<close>; or it raises \<^verbatim>\<open>SystemExit\<close>
  (\<^verbatim>\<open>handle_exit\<close>), which no \<^verbatim>\<open>except Exception\<close> catches. \<open>handlers\<close> is the dictionary
  \<^verbatim>\<open>command_handlers\<close>; the flag passed to a handler says that it is called with the
  connection state (the \<^verbatim>\<open>dns-res\<close> case). \<open>history_fault\<close> is the exception of the
  insertion into \<^verbatim>\<open>cli_history\<close>, if it raises.
\<close>

datatype run_outcome =
    Completed string string
  | Raised string string string
  | Exited

definition execute_controller_command ::
  "(string \<Rightarrow> (string list \<Rightarrow> bool \<Rightarrow> run_outcome) option) \<Rightarrow> string option \<Rightarrow> string
     \<Rightarrow> (bool \<times> string) option" where
  \<comment> \<open>\<^verbatim>\<open>_execute_controller_command\<close>: \<open>Some (success, output)\<close>, or \<open>None\<close> when
      \<^verbatim>\<open>SystemExit\<close> leaves the function\<close>
  "execute_controller_command handlers history_fault command_content =
     (let parts = split (strip command_content) in
      if parts = [] then Some (False, ''Empty command'')
      else
        let command = lower (hd parts); args = tl parts in
        case handlers command of
          None \<Rightarrow> Some (False, ''Unknown command: '' @ command)
        | Some handler \<Rightarrow>
            (case handler args (command = ''dns-res'') of
               Completed output error \<Rightarrow>
                 (let output = strip (if error \<noteq> [] then output @ [LF] @ error else output) in
                  case history_fault of
                    Some e \<Rightarrow> Some (False, e)
                  | None \<Rightarrow> Some (True, output))
             | Raised e output error \<Rightarrow>
                 (let error_msg = strip (e @ [LF] @ error) in
                  case history_fault of
                    Some e' \<Rightarrow> Some (False, e')
                  | None \<Rightarrow> Some (False, error_msg))
             | Exited \<Rightarrow> None))"

definition execute_command_with_log ::
  "(string \<Rightarrow> (string list \<Rightarrow> bool \<Rightarrow> run_outcome) option) \<Rightarrow> string option \<Rightarrow> string
     \<Rightarrow> string" where
  \<comment> \<open>\<^verbatim>\<open>_execute_command_with_log\<close>: the content of the log file when the worker ends\<close>
  "execute_command_with_log handlers history_fault command_content =
     (let started = write_log_status ''1'' ''Command execution started'' in
      case execute_controller_command handlers history_fault command_content of
        None \<Rightarrow> started
      | Some (success, output) \<Rightarrow>
          if success then append_log_result (write_log_status ''1'' output) ''1''
          else append_log_result (write_log_status ''0'' output) ''0'')"

definition check_log :: "string option \<Rightarrow> (bool \<times> string) option" where
  \<comment> \<open>one round of the second polling loop of \<^verbatim>\<open>send_command\<close>: \<open>Some\<close> is a
      \<^verbatim>\<open>return\<close>, \<open>None\<close> sleeps and polls again\<close>
  "check_log file =
     (case read_log_file file of
        None \<Rightarrow> None
      | Some log_data \<Rightarrow>
          (let status = log_status log_data; message = log_message log_data in
           if status = ''1'' \<and> log_result log_data \<noteq> [] then
             (if log_result log_data = ''1''
              then Some (True, if message \<noteq> [] then message
                               else ''Command executed successfully'')
              else Some (False, if message \<noteq> [] then message else ''Command failed''))
           else if status = ''0''
           then Some (False, if message \<noteq> [] then message
                             else ''Command failed immediately'')
           else None))"

fun poll_log :: "string option list \<Rightarrow> bool \<times> string" where
  \<comment> \<open>the loop over the contents seen at the successive polls within the 300 seconds\<close>
  "poll_log [] = (False, ''Timeout waiting for command execution'')"
| "poll_log (file # later) =
     (case check_log file of Some r \<Rightarrow> r | None \<Rightarrow> poll_log later)"

definition send_command_wait :: "string \<Rightarrow> bool \<Rightarrow> string option list \<Rightarrow> bool \<times> string" where
  \<comment> \<open>\<^verbatim>\<open>send_command\<close> from the point where the controller file names \<open>log_file\<close>:
      \<open>exists\<close> is \<^verbatim>\<open>os.path.exists(log_file)\<close> at that point\<close>
  "send_command_wait log_file exists polls =
     (if \<not> exists then (False, ''Log file not found: '' @ log_file) else poll_log polls)"

section \<open>HPSClientCore: data\<close>

subsection \<open>Libraries and environment\<close>

text \<open>
  The arguments of \<^verbatim>\<open>private_key.sign(data, padding, algorithm)\<close>. A private key is the
  function its \<^verbatim>\<open>sign\<close> method computes (for the salt drawn in that call).
\<close>

datatype hash_algorithm = SHA256

datatype mask_generation = MGF1 hash_algorithm

datatype salt_length = MAX_LENGTH | DIGEST_LENGTH | SaltBytes nat

datatype padding = PSS mask_generation salt_length | PKCS1v15

type_synonym private_key = "bytes \<Rightarrow> padding \<Rightarrow> hash_algorithm \<Rightarrow> bytes"

record env =
  sha256 :: "bytes \<Rightarrow> bytes"                 \<comment> \<open>\<^verbatim>\<open>hashlib.sha256(x).digest()\<close>\<close>
  b64encode :: "bytes \<Rightarrow> bytes"              \<comment> \<open>\<^verbatim>\<open>base64.b64encode\<close>\<close>
  b64decode :: "string \<Rightarrow> string + bytes"    \<comment> \<open>\<^verbatim>\<open>base64.b64decode\<close>, \<open>Inl\<close> the exception\<close>
  local_files :: "string \<Rightarrow> bytes option"    \<comment> \<open>the files a handler can read, by path\<close>
  basename :: "string \<Rightarrow> string"              \<comment> \<open>\<^verbatim>\<open>os.path.basename\<close>\<close>
  splitext_ext :: "string \<Rightarrow> string"          \<comment> \<open>\<^verbatim>\<open>os.path.splitext(p)[1]\<close>\<close>
  guess_type :: "string \<Rightarrow> string option"     \<comment> \<open>\<^verbatim>\<open>mimetypes.guess_type(p)[0]\<close>\<close>
  guess_extension :: "string \<Rightarrow> string option" \<comment> \<open>\<^verbatim>\<open>mimetypes.guess_extension\<close>\<close>
  get_input :: "string \<Rightarrow> string"             \<comment> \<open>the line typed at a prompt\<close>
  now :: int                                    \<comment> \<open>\<^verbatim>\<open>time.time()\<close>, first reading of a call\<close>
  later :: int                                  \<comment> \<open>\<^verbatim>\<open>time.time()\<close>, a later reading of the call\<close>
  fs_fault :: "string option"   \<comment> \<open>the exception raised by writing a file, if any\<close>
  db_fault :: "string option"   \<comment> \<open>the exception raised by a database statement, if any\<close>
  mining_fuel :: nat            \<comment> \<open>iterations the miner is given, see \<open>solve_loop\<close>\<close>
  hashrate_observed :: int      \<comment> \<open>\<^verbatim>\<open>pow_solver.hashrate_observed\<close> after mining\<close>

subsection \<open>Messages, events and rows\<close>

text \<open>What \<^verbatim>\<open>CLIDisplay\<close> and \<^verbatim>\<open>print\<close> show, by kind, without colours and frames.\<close>

datatype msg =
    Section string
  | Info string
  | Success string
  | Warning string
  | Error string
  | Print string

text \<open>The events passed to \<^verbatim>\<open>sio.emit\<close>, with the fields of their payload.\<close>

datatype emit =
    RequestPowChallenge string string
      \<comment> \<open>\<^verbatim>\<open>client_identifier\<close>, \<^verbatim>\<open>action_type\<close>\<close>
  | Authenticate "string option" string string string string int string string
      \<comment> \<open>\<^verbatim>\<open>username\<close>, \<^verbatim>\<open>password_hash\<close>, \<^verbatim>\<open>public_key\<close>, \<^verbatim>\<open>client_identifier\<close>,
          \<^verbatim>\<open>pow_nonce\<close>, \<^verbatim>\<open>hashrate_observed\<close>, \<^verbatim>\<open>client_challenge_signature\<close>,
          \<^verbatim>\<open>client_challenge\<close>\<close>
  | PublishContent string string string string nat string string string string int
      \<comment> \<open>\<^verbatim>\<open>content_hash\<close>, \<^verbatim>\<open>title\<close>, \<^verbatim>\<open>description\<close>, \<^verbatim>\<open>mime_type\<close>, \<^verbatim>\<open>size\<close>,
          \<^verbatim>\<open>signature\<close>, \<^verbatim>\<open>public_key\<close>, \<^verbatim>\<open>content_b64\<close>, \<^verbatim>\<open>pow_nonce\<close>,
          \<^verbatim>\<open>hashrate_observed\<close>\<close>
  | RegisterDns string string string string string int
      \<comment> \<open>\<^verbatim>\<open>domain\<close>, \<^verbatim>\<open>ddns_content\<close>, \<^verbatim>\<open>signature\<close>, \<^verbatim>\<open>public_key\<close>, \<^verbatim>\<open>pow_nonce\<close>,
          \<^verbatim>\<open>hashrate_observed\<close>\<close>
  | ReportContent string string "string option" string int
      \<comment> \<open>\<^verbatim>\<open>content_hash\<close>, \<^verbatim>\<open>reported_user\<close>, \<^verbatim>\<open>reporter\<close>, \<^verbatim>\<open>pow_nonce\<close>,
          \<^verbatim>\<open>hashrate_observed\<close>\<close>
  | RequestContent string
  | ResolveDns string
  | GetNetworkState

text \<open>
  The payloads of the server's events are JSON objects: a key that may be missing is an
  \<open>option\<close>, and \<open>dict_get\<close> is \<^verbatim>\<open>data.get(key, default)\<close>.
\<close>

definition dict_get :: "'a option \<Rightarrow> 'a \<Rightarrow> 'a" where
  "dict_get v dflt = (case v of None \<Rightarrow> dflt | Some x \<Rightarrow> x)"

record pow_challenge_data =
  pc_error :: "string option"
  pc_blocked_until :: "int option"
  pc_challenge :: "string option"
  pc_target_bits :: "int option"
  pc_action_type :: "string option"

record reply =
  \<comment> \<open>\<^verbatim>\<open>publish_result\<close>, \<^verbatim>\<open>dns_result\<close>, \<^verbatim>\<open>dns_resolution\<close> and \<^verbatim>\<open>report_result\<close>\<close>
  rp_success :: "bool option"
  rp_error :: "string option"
  rp_content_hash :: "string option"
  rp_domain :: "string option"
  rp_username :: "string option"
  rp_verified :: "bool option"

record content_response_data =
  cr_error :: "string option"
  cr_content :: "string option"
  cr_title :: "string option"
  cr_description :: "string option"
  cr_mime_type :: "string option"
  cr_username :: "string option"
  cr_signature :: "string option"
  cr_public_key :: "string option"
  cr_verified :: "bool option"
  cr_content_hash :: "string option"
  cr_reputation :: "int option"

record metadata =
  md_title :: string
  md_description :: string
  md_mime_type :: string
  md_username :: string
  md_signature :: string
  md_public_key :: string
  md_verified :: bool

record content_info =
  ci_meta :: metadata
  ci_content :: bytes
  ci_content_hash :: string
  ci_reputation :: int
  ci_integrity_ok :: bool

datatype content_result = ContentError string | ContentInfo content_info

datatype network_result = NetworkError string | NetworkState int int int

datatype search_result = SearchError string | SearchResults "(string \<times> string \<times> string) list"

record cache_row =
  \<comment> \<open>a row of \<^verbatim>\<open>cli_content_cache\<close> without its key \<^verbatim>\<open>content_hash\<close>\<close>
  row_file_name :: string
  row_mime_type :: string
  row_size :: nat
  row_last_accessed :: int
  row_meta :: "metadata option"

record report_row =
  \<comment> \<open>a row of \<^verbatim>\<open>cli_reports\<close>\<close>
  rep_id :: string
  rep_content_hash :: string
  rep_reported_user :: string
  rep_reporter_user :: string
  rep_timestamp :: int
  rep_status :: string
  rep_reason :: string

record upload_ctx =
  \<comment> \<open>the tuple \<^verbatim>\<open>pending_upload\<close>\<close>
  pu_content_hash :: string
  pu_title :: string
  pu_description :: string
  pu_mime_type :: string
  pu_size :: nat
  pu_signature :: bytes
  pu_full_content :: bytes

subsection \<open>The client object\<close>

text \<open>
  The attributes of \<^verbatim>\<open>HPSClientCore\<close> that the embedded functions read or write. A
  \<^verbatim>\<open>pending_*\<close> attribute that is absent (\<^verbatim>\<open>hasattr\<close> false) is \<open>None\<close>, for
  \<^verbatim>\<open>pending_login\<close> \<open>False\<close>. An event is the flag of the \<^verbatim>\<open>threading.Event\<close>.
  \<open>content_files\<close> holds the blobs \<^verbatim>\<open>content/<hash>.dat\<close> by their hash, \<open>saved_files\<close>
  the files that \<^verbatim>\<open>download\<close> writes, \<open>cli_content_cache\<close>, \<open>cli_reports\<close>, \<open>cli_session\<close>
  and \<open>cli_stats\<close> the tables of the database. \<open>display\<close> and \<open>emitted\<close> record the output
  and the emitted events in order.
\<close>

record client =
  no_cli :: bool
  via_controller :: bool
  current_user :: "string option"
  username :: "string option"
  password :: "string option"
  current_server :: "string option"
  connected :: bool
  sio_connected :: bool
  has_loop :: bool
  auto_reconnect :: bool
  is_running :: bool
  reconnect_started :: bool
  reputation :: int
  banned_until :: "int option"
  ban_duration :: int
  ban_reason :: string
  private_key :: private_key
  public_key_pem :: bytes
  client_identifier :: string
  client_auth_challenge :: "string option"
  max_upload_size :: nat
  is_solving :: bool
  stats_data :: "string \<Rightarrow> int"
  pending_login :: bool
  pending_upload :: "upload_ctx option"
  pending_dns :: "(string \<times> bytes \<times> bytes) option"
  pending_report :: "(string \<times> string) option"
  upload_event :: bool
  upload_result :: "reply option"
  dns_event :: bool
  dns_result :: "reply option"
  report_event :: bool
  report_result :: "reply option"
  content_event :: bool
  content_result :: "content_result option"
  search_event :: bool
  search_result :: "search_result option"
  network_event :: bool
  network_result :: "network_result option"
  content_files :: "(string \<times> bytes) list"
  saved_files :: "(string \<times> bytes) list"
  cli_content_cache :: "(string \<times> cache_row) list"
  cli_reports :: "report_row list"
  cli_session :: "(string \<times> string) list"
  cli_stats :: "string \<Rightarrow> int"
  display :: "msg list"
  emitted :: "emit list"

definition initial_stats :: "string \<Rightarrow> int" where
  "initial_stats key = 0"

definition initial_client :: "private_key \<Rightarrow> bytes \<Rightarrow> string \<Rightarrow> client" where
  \<comment> \<open>\<^verbatim>\<open>HPSClientCore.__init__\<close> on an empty configuration directory, for a key pair and a
      client identifier, once the network thread has created its loop\<close>
  "initial_client key pem ident =
     \<lparr> no_cli = False, via_controller = False,
       current_user = None, username = None, password = None, current_server = None,
       connected = False, sio_connected = False, has_loop = True,
       auto_reconnect = True, is_running = True, reconnect_started = False,
       reputation = 100, banned_until = None, ban_duration = 0, ban_reason = [],
       private_key = key, public_key_pem = pem, client_identifier = ident,
       client_auth_challenge = None, max_upload_size = 100 * 1024 * 1024,
       is_solving = False, stats_data = initial_stats,
       pending_login = False, pending_upload = None, pending_dns = None,
       pending_report = None,
       upload_event = False, upload_result = None, dns_event = False, dns_result = None,
       report_event = False, report_result = None,
       content_event = False, content_result = None,
       search_event = False, search_result = None,
       network_event = False, network_result = None,
       content_files = [], saved_files = [], cli_content_cache = [], cli_reports = [],
       cli_session = [], cli_stats = initial_stats, display = [], emitted = [] \<rparr>"

definition truthy :: "string option \<Rightarrow> bool" where
  \<comment> \<open>the truth value of an attribute that is \<^verbatim>\<open>None\<close> or a string\<close>
  "truthy v = (case v of None \<Rightarrow> False | Some s \<Rightarrow> s \<noteq> [])"

definition str_opt :: "string option \<Rightarrow> string" where
  \<comment> \<open>\<^verbatim>\<open>f"{v}"\<close> for an attribute that is \<^verbatim>\<open>None\<close> or a string\<close>
  "str_opt v = (case v of None \<Rightarrow> ''None'' | Some s \<Rightarrow> s)"

definition say :: "msg \<Rightarrow> client \<Rightarrow> client" where
  "say m st = st\<lparr>display := display st @ [m]\<rparr>"

definition sio_emit :: "emit \<Rightarrow> client \<Rightarrow> client" where
  "sio_emit e st = st\<lparr>emitted := emitted st @ [e]\<rparr>"

definition bump :: "string \<Rightarrow> int \<Rightarrow> client \<Rightarrow> client" where
  \<comment> \<open>\<^verbatim>\<open>self.stats_data[key] += n\<close>\<close>
  "bump key n st = st\<lparr>stats_data := (stats_data st)(key := stats_data st key + n)\<rparr>"

section \<open>HPSClientCore: helpers and emitting coroutines\<close>

text \<open>
  A method whose Python name starts with an underscore keeps its name without it. A
  function that can raise after it has changed the object returns the exception, if any,
  and the object as it is then.
\<close>

definition startswith :: "string \<Rightarrow> string \<Rightarrow> bool" where
  "startswith s p = (take (length p) s = p)"

definition logged_in_user :: "client \<Rightarrow> string option" where
  \<comment> \<open>the user when \<^verbatim>\<open>self.current_user\<close> is true, that is neither \<^verbatim>\<open>None\<close> nor empty\<close>
  "logged_in_user st =
     (case current_user st of None \<Rightarrow> None | Some u \<Rightarrow> if u = [] then None else Some u)"

definition request_pow_challenge :: "string \<Rightarrow> client \<Rightarrow> client" where
  "request_pow_challenge action_type st =
     (if \<not> connected st then say (Error ''Not connected to server'') st
      else sio_emit (RequestPowChallenge (client_identifier st) action_type) st)"

definition run_async :: "(client \<Rightarrow> client) \<Rightarrow> client \<Rightarrow> client" where
  \<comment> \<open>the coroutine is run to its end; its 60 second limit is not modelled\<close>
  "run_async coro st =
     (if \<not> connected st then say (Error ''Not connected to server'') st
      else if \<not> has_loop st then say (Error ''Network loop not initialized'') st
      else coro st)"

definition save_session_state :: "env \<Rightarrow> client \<Rightarrow> string option \<times> client" where
  "save_session_state env st =
     (case db_fault env of
        Some e \<Rightarrow> (Some e, st)
      | None \<Rightarrow>
          (None,
           st\<lparr>cli_session :=
                 AList.update ''username'' (dict_get (username st) [])
                   (AList.update ''reputation'' (str_int (reputation st))
                     (AList.update ''current_server'' (dict_get (current_server st) [])
                       (AList.update ''current_user'' (dict_get (current_user st) [])
                         (cli_session st)))),
               cli_stats := stats_data st\<rparr>))"

definition save_content_to_storage ::
  "env \<Rightarrow> string \<Rightarrow> bytes \<Rightarrow> metadata option \<Rightarrow> client \<Rightarrow> string option \<times> client" where
  \<comment> \<open>the file is written first, then the row is inserted or replaced\<close>
  "save_content_to_storage env content_hash content meta st =
     (case fs_fault env of
        Some e \<Rightarrow> (Some e, st)
      | None \<Rightarrow>
          (let st1 = st\<lparr>content_files := AList.update content_hash content (content_files st)\<rparr>
           in case db_fault env of
                Some e \<Rightarrow> (Some e, st1)
              | None \<Rightarrow>
                  (None,
                   st1\<lparr>cli_content_cache :=
                         AList.update content_hash
                           \<lparr> row_file_name = content_hash @ ''.dat'',
                             row_mime_type =
                               (case meta of None \<Rightarrow> ''application/octet-stream''
                                | Some m \<Rightarrow> md_mime_type m),
                             row_size = length content,
                             row_last_accessed = now env,
                             row_meta = meta \<rparr>
                           (cli_content_cache st1)\<rparr>)))"

definition handle_ban :: "int \<Rightarrow> int \<Rightarrow> string \<Rightarrow> client \<Rightarrow> client" where
  \<comment> \<open>\<open>t\<close> is the reading of \<^verbatim>\<open>time.time()\<close> inside \<^verbatim>\<open>handle_ban\<close>\<close>
  "handle_ban t duration reason st =
     say (Warning (''Banned for '' @ str_int duration @ ''s: '' @ reason))
       (st\<lparr>banned_until := Some (t + duration), ban_duration := duration,
           ban_reason := reason\<rparr>)"

definition pss_sha256 :: padding where
  \<comment> \<open>\<^verbatim>\<open>padding.PSS(mgf=padding.MGF1(hashes.SHA256()), salt_length=padding.PSS.MAX_LENGTH)\<close>\<close>
  "pss_sha256 = PSS (MGF1 SHA256) MAX_LENGTH"

definition send_authentication :: "env \<Rightarrow> string \<Rightarrow> int \<Rightarrow> client \<Rightarrow> client" where
  \<comment> \<open>a missing password raises in \<^verbatim>\<open>self.password.encode()\<close> and nothing is sent\<close>
  "send_authentication env pow_nonce hashrate st =
     (if \<not> connected st then st
      else case password st of
        None \<Rightarrow> st
      | Some pw \<Rightarrow>
          (let password_hash = hexdigest (sha256 env (encode pw)) in
           case client_auth_challenge st of
             None \<Rightarrow> say (Error ''Client authentication challenge missing'') st
           | Some challenge \<Rightarrow>
               if challenge = [] then say (Error ''Client authentication challenge missing'') st
               else
                 let client_challenge_signature =
                       private_key st (encode challenge) pss_sha256 SHA256
                 in sio_emit
                      (Authenticate (username st) password_hash
                         (decode (b64encode env (public_key_pem st)))
                         (client_identifier st) pow_nonce hashrate
                         (decode (b64encode env client_challenge_signature)) challenge)
                      st))"

definition upload_file :: "env \<Rightarrow> upload_ctx \<Rightarrow> string \<Rightarrow> int \<Rightarrow> client \<Rightarrow> client" where
  \<comment> \<open>\<^verbatim>\<open>_upload_file(*self.pending_upload, nonce, hashrate)\<close>\<close>
  "upload_file env ctx pow_nonce hashrate st =
     (if \<not> connected st then st
      else
        let content_b64 = decode (b64encode env (pu_full_content ctx)) in
        sio_emit
          (PublishContent (pu_content_hash ctx) (pu_title ctx) (pu_description ctx)
             (pu_mime_type ctx) (pu_size ctx)
             (decode (b64encode env (pu_signature ctx)))
             (decode (b64encode env (public_key_pem st)))
             content_b64 pow_nonce hashrate)
          st)"

definition register_dns ::
  "env \<Rightarrow> string \<times> bytes \<times> bytes \<Rightarrow> string \<Rightarrow> int \<Rightarrow> client \<Rightarrow> client" where
  \<comment> \<open>\<^verbatim>\<open>_register_dns(*self.pending_dns, nonce, hashrate)\<close>\<close>
  "register_dns env ctx pow_nonce hashrate st =
     (case ctx of (domain, ddns_content, signature) \<Rightarrow>
        if \<not> connected st then st
        else
          sio_emit
            (RegisterDns domain (decode (b64encode env ddns_content))
               (decode (b64encode env signature))
               (decode (b64encode env (public_key_pem st))) pow_nonce hashrate)
            st)"

definition report_content ::
  "env \<Rightarrow> string \<Rightarrow> string \<Rightarrow> string \<Rightarrow> int \<Rightarrow> client \<Rightarrow> client" where
  \<comment> \<open>\<^verbatim>\<open>_report_content\<close>. The \<^verbatim>\<open>INSERT\<close> raises on a database fault, on a reporter
      that is \<^verbatim>\<open>None\<close> (the column is \<^verbatim>\<open>NOT NULL\<close>) and on a \<^verbatim>\<open>report_id\<close> that the table
      already holds (the primary key); the \<^verbatim>\<open>except\<close> prints and nothing is emitted.\<close>
  "report_content env content_hash reported_user pow_nonce hashrate st =
     (if \<not> connected st then st
      else
        let report_id =
              hexdigest (sha256 env (encode
                (content_hash @ reported_user @ str_opt (current_user st) @ str_int (now env))))
        in case db_fault env of
             Some e \<Rightarrow> say (Error (''Report sending error: '' @ e)) st
           | None \<Rightarrow>
               (case current_user st of
                  None \<Rightarrow>
                    say (Error (''Report sending error: '' @
                      ''NOT NULL constraint failed: cli_reports.reporter_user'')) st
                | Some reporter \<Rightarrow>
                    if report_id \<in> set (map rep_id (cli_reports st)) then
                      say (Error (''Report sending error: '' @
                        ''UNIQUE constraint failed: cli_reports.report_id'')) st
                    else
                      sio_emit
                        (ReportContent content_hash reported_user (Some reporter)
                           pow_nonce hashrate)
                        (st\<lparr>cli_reports := cli_reports st @
                              [\<lparr> rep_id = report_id,
                                 rep_content_hash = content_hash,
                                 rep_reported_user = reported_user,
                                 rep_reporter_user = reporter,
                                 rep_timestamp = later env,
                                 rep_status = ''pending'',
                                 rep_reason = [] \<rparr>]\<rparr>)))"

definition request_content_by_hash :: "string \<Rightarrow> client \<Rightarrow> client" where
  "request_content_by_hash content_hash st =
     (if \<not> connected st then st else sio_emit (RequestContent content_hash) st)"

definition get_network_state :: "client \<Rightarrow> client" where
  "get_network_state st =
     (if \<not> connected st then say (Error ''Not connected to server'') st
      else sio_emit GetNetworkState st)"

definition resolve_dns :: "string \<Rightarrow> client \<Rightarrow> client" where
  "resolve_dns domain st =
     (if \<not> connected st then say (Error ''Not connected to server'') st
      else sio_emit (ResolveDns domain) st)"

section \<open>HPSClientCore: handlers of the server's events\<close>

definition disconnect :: "client \<Rightarrow> client" where
  \<comment> \<open>the transport's \<^verbatim>\<open>disconnect\<close> event; \<open>reconnect_started\<close> stands for
      \<^verbatim>\<open>start_reconnect_thread\<close>\<close>
  "disconnect st =
     (let st1 = say (Warning (''Disconnected from server '' @ str_opt (current_server st)))
                  (st\<lparr>connected := False\<rparr>)
      in if auto_reconnect st1 \<and> is_running st1 then st1\<lparr>reconnect_started := True\<rparr>
         else st1)"

definition mine :: "env \<Rightarrow> pow_challenge_data \<Rightarrow> client \<Rightarrow> nat option" where
  \<comment> \<open>\<^verbatim>\<open>solve_challenge\<close> followed by \<^verbatim>\<open>wait_for_solution\<close>: the nonce found, if any. A
      missing \<^verbatim>\<open>challenge\<close> or \<^verbatim>\<open>target_bits\<close> is \<^verbatim>\<open>None\<close> in Python and raises inside
      the solver thread.\<close>
  "mine env data st =
     (case pc_challenge data of
        None \<Rightarrow> None
      | Some challenge \<Rightarrow>
          (case pc_target_bits data of
             None \<Rightarrow> None
           | Some target_bits \<Rightarrow>
               solve_challenge (sha256 env) (b64decode env) (is_solving st) (mining_fuel env)
                 challenge target_bits))"

definition pow_challenge :: "env \<Rightarrow> pow_challenge_data \<Rightarrow> client \<Rightarrow> client" where
  \<comment> \<open>\<open>now env\<close> is the clock read in this handler, \<open>later env\<close> the clock read in
      \<^verbatim>\<open>handle_ban\<close> or after mining; the solver's own output is left out\<close>
  "pow_challenge env data st =
     (case pc_error data of
        Some error \<Rightarrow>
          (let st1 = say (Error (''PoW challenge error: '' @ error)) st in
           case pc_blocked_until data of
             Some blocked_until \<Rightarrow>
               (let duration = blocked_until - now env in
                handle_ban (later env) duration ''Rate limit exceeded'' st1)
           | None \<Rightarrow> st1)
      | None \<Rightarrow>
          (let action_type = dict_get (pc_action_type data) ''login'';
               st1 = say (Info (''PoW challenge received: '' @
                       (case pc_target_bits data of None \<Rightarrow> ''None'' | Some t \<Rightarrow> str_int t)
                       @ '' bits'')) st
           in case mine env data st1 of
                None \<Rightarrow> say (Error ''PoW solution failed'') st1
              | Some n \<Rightarrow>
                  (let nonce = str_nat n;
                       hashrate = hashrate_observed env;
                       pow_time = later env - now env;
                       st2 = bump ''hashes_calculated'' (int n + 1)
                               (bump ''pow_time'' pow_time (bump ''pow_solved'' 1 st1))
                   in if action_type = ''login'' then send_authentication env nonce hashrate st2
                      else if action_type = ''upload'' then
                        (case pending_upload st2 of
                           Some ctx \<Rightarrow> upload_file env ctx nonce hashrate st2
                         | None \<Rightarrow> st2)
                      else if action_type = ''dns'' then
                        (case pending_dns st2 of
                           Some ctx \<Rightarrow> register_dns env ctx nonce hashrate st2
                         | None \<Rightarrow> st2)
                      else if action_type = ''report'' then
                        (case pending_report st2 of
                           Some (content_hash, reported) \<Rightarrow>
                             report_content env content_hash reported nonce hashrate st2
                         | None \<Rightarrow> st2)
                      else st2)))"

definition content_response_except :: "string \<Rightarrow> client \<Rightarrow> client" where
  \<comment> \<open>the \<^verbatim>\<open>except Exception as e\<close> branch of \<^verbatim>\<open>content_response\<close>\<close>
  "content_response_except e st =
     (say (if via_controller st then Print (''Error decoding content: '' @ e)
           else Error (''Error decoding content: '' @ e)) st)
       \<lparr>content_result := Some (ContentError e), content_event := True\<rparr>"

definition content_response :: "env \<Rightarrow> content_response_data \<Rightarrow> client \<Rightarrow> client" where
  "content_response env data st =
     (case cr_error data of
        Some error \<Rightarrow>
          (say (if via_controller st then Print (''Content error: '' @ error)
                else Error (''Content error: '' @ error)) st)
            \<lparr>content_result := Some (ContentError error), content_event := True\<rparr>
      | None \<Rightarrow>
          (let meta = \<lparr> md_title = dict_get (cr_title data) ''No title'',
                        md_description = dict_get (cr_description data) [],
                        md_mime_type = dict_get (cr_mime_type data) ''text/plain'',
                        md_username = dict_get (cr_username data) ''Unknown'',
                        md_signature = dict_get (cr_signature data) [],
                        md_public_key = dict_get (cr_public_key data) [],
                        md_verified = dict_get (cr_verified data) False \<rparr>;
               content_hash = dict_get (cr_content_hash data) []
           in case (case cr_content data of
                      None \<Rightarrow> Inl ''argument should be a bytes-like object or ASCII string''
                    | Some content_b64 \<Rightarrow> b64decode env content_b64) of
                Inl e \<Rightarrow> content_response_except e st
              | Inr content \<Rightarrow>
                  (let st1 = bump ''content_downloaded'' 1
                               (bump ''data_received'' (int (length content)) st);
                       actual_hash = hexdigest (sha256 env content);
                       integrity_ok = (actual_hash = content_hash);
                       st2 = (if \<not> integrity_ok \<and> \<not> via_controller st1
                              then say (Warning ''File integrity compromised!'') st1 else st1)
                   in case save_content_to_storage env content_hash content (Some meta) st2 of
                        (Some e, st3) \<Rightarrow> content_response_except e st3
                      | (None, st3) \<Rightarrow>
                          (let content_info =
                                 \<lparr> ci_meta = meta, ci_content = content,
                                   ci_content_hash = content_hash,
                                   ci_reputation = dict_get (cr_reputation data) 100,
                                   ci_integrity_ok = integrity_ok \<rparr>;
                               st4 = st3\<lparr>content_result := Some (ContentInfo content_info),
                                         content_event := True\<rparr>
                           in case save_session_state env st4 of
                                (Some e, st5) \<Rightarrow> content_response_except e st5
                              | (None, st5) \<Rightarrow> st5))))"

definition publish_result :: "env \<Rightarrow> reply \<Rightarrow> client \<Rightarrow> client" where
  \<comment> \<open>an exception of \<^verbatim>\<open>save_session_state\<close> leaves the handler before the \<^verbatim>\<open>del\<close>\<close>
  "publish_result env data st =
     (if dict_get (rp_success data) False then
        (let st1 = bump ''content_uploaded'' 1 st;
             text = ''Upload successful! Hash: '' @ str_opt (rp_content_hash data);
             st2 = say (if via_controller st1 then Print text else Success text) st1;
             st3 = st2\<lparr>upload_result := Some data, upload_event := True\<rparr>
         in case save_session_state env st3 of
              (Some e, st4) \<Rightarrow> st4
            | (None, st4) \<Rightarrow> st4\<lparr>pending_upload := None\<rparr>)
      else
        (let text = ''Upload failed: '' @ dict_get (rp_error data) ''Unknown error'';
             st1 = say (if via_controller st then Print text else Error text) st
         in st1\<lparr>upload_result := Some data, upload_event := True, pending_upload := None\<rparr>))"

definition dns_result_event :: "env \<Rightarrow> reply \<Rightarrow> client \<Rightarrow> client" where
  \<comment> \<open>the handler \<^verbatim>\<open>dns_result\<close> (the attribute of the same name is a field of \<open>client\<close>)\<close>
  "dns_result_event env data st =
     (if dict_get (rp_success data) False then
        (let st1 = bump ''dns_registered'' 1 st;
             text = ''DNS registered: '' @ str_opt (rp_domain data);
             st2 = say (if via_controller st1 then Print text else Success text) st1;
             st3 = st2\<lparr>dns_result := Some data, dns_event := True\<rparr>
         in case save_session_state env st3 of
              (Some e, st4) \<Rightarrow> st4
            | (None, st4) \<Rightarrow> st4\<lparr>pending_dns := None\<rparr>)
      else
        (let text = ''DNS registration failed: '' @ dict_get (rp_error data) ''Unknown error'';
             st1 = say (if via_controller st then Print text else Error text) st
         in st1\<lparr>dns_result := Some data, dns_event := True, pending_dns := None\<rparr>))"

definition report_result_event :: "env \<Rightarrow> reply \<Rightarrow> client \<Rightarrow> client" where
  \<comment> \<open>the handler \<^verbatim>\<open>report_result\<close>\<close>
  "report_result_event env data st =
     (if dict_get (rp_success data) False then
        (let st1 = bump ''content_reported'' 1 st;
             text = ''Content reported successfully!'';
             st2 = say (if via_controller st1 then Print text else Success text) st1;
             st3 = st2\<lparr>report_result := Some data, report_event := True\<rparr>
         in case save_session_state env st3 of
              (Some e, st4) \<Rightarrow> st4
            | (None, st4) \<Rightarrow> st4\<lparr>pending_report := None\<rparr>)
      else
        (let text = ''Report failed: '' @ dict_get (rp_error data) ''Unknown error'';
             st1 = say (if via_controller st then Print text else Error text) st
         in st1\<lparr>report_result := Some data, report_event := True, pending_report := None\<rparr>))"

definition search_results :: "search_result \<Rightarrow> client \<Rightarrow> client" where
  \<comment> \<open>the handler \<^verbatim>\<open>search_results\<close> on a payload with an \<^verbatim>\<open>error\<close> or with \<^verbatim>\<open>results\<close>\<close>
  "search_results data st =
     (case data of
        SearchError error \<Rightarrow>
          (say (if via_controller st then Print (''Search error: '' @ error)
                else Error (''Search error: '' @ error)) st)
            \<lparr>search_result := Some (SearchError error), search_event := True\<rparr>
      | SearchResults results \<Rightarrow>
          (if via_controller st
           then foldl (\<lambda>s (h, t, u). say (Print (h @ ''|'' @ t @ ''|'' @ u)) s) st results
           else st)
            \<lparr>search_result := Some (SearchResults results), search_event := True\<rparr>)"

definition network_state :: "network_result \<Rightarrow> client \<Rightarrow> client" where
  \<comment> \<open>the handler \<^verbatim>\<open>network_state\<close>\<close>
  "network_state data st = st\<lparr>network_result := Some data, network_event := True\<rparr>"

section \<open>HPSClientCore: command handlers\<close>

text \<open>
  A blocking handler is cut at its \<^verbatim>\<open>event.wait(timeout)\<close>. Before the wait it ends in
  one of three ways: it returns (\<open>Returns\<close>), an exception leaves it (\<open>Raises\<close>), or it
  reaches the wait (\<open>Waits\<close>, with the kind of wait). After the wait \<open>resume\<close> runs the
  rest of the handler. \<open>event_wait timeout set_after\<close> is the value of
  \<^verbatim>\<open>event.wait(timeout)\<close> when the event is set \<open>set_after\<close> seconds after the wait began,
  or never (\<open>None\<close>).
\<close>

datatype wait_kind =
    WaitUpload
  | WaitContent "string option"
  | WaitDnsRegister
  | WaitDnsResolve
  | WaitSearch
  | WaitNetwork
  | WaitReport

datatype handler_step =
    Returns client
  | Raises string client
  | Waits wait_kind client

definition event_wait :: "nat \<Rightarrow> nat option \<Rightarrow> bool" where
  "event_wait timeout set_after = (case set_after of None \<Rightarrow> False | Some d \<Rightarrow> d < timeout)"

definition sio_disconnect :: "client \<Rightarrow> client" where
  \<comment> \<open>\<^verbatim>\<open>self.sio.disconnect()\<close>: the socket closes and the \<^verbatim>\<open>disconnect\<close> event fires\<close>
  "sio_disconnect st = disconnect (st\<lparr>sio_connected := False\<rparr>)"

definition handle_logout :: "env \<Rightarrow> client \<Rightarrow> string option \<times> client" where
  "handle_logout env st =
     (if \<not> truthy (current_user st) then (None, say (Warning ''You are not logged in'') st)
      else
        let st1 = st\<lparr>current_user := None, username := None, connected := False\<rparr>;
            st2 = (if sio_connected st1 then run_async sio_disconnect st1 else st1);
            st3 = say (if via_controller st2 then Print ''Logout successful''
                       else Success ''Logout successful'') st2
        in save_session_state env st3)"

subsection \<open>\<^verbatim>\<open>upload\<close>\<close>

fun parse_upload_options ::
  "string list \<Rightarrow> string option \<times> string \<times> string option
     \<Rightarrow> string + (string option \<times> string \<times> string option)" where
  \<comment> \<open>the \<^verbatim>\<open>while i < len(args)\<close> loop over the options; \<open>Inl a\<close> is the unknown argument\<close>
  "parse_upload_options [] opts = Inr opts"
| "parse_upload_options [a] opts = Inl a"
| "parse_upload_options (a # v # rest) (title, description, mime_type) =
     (if a = ''--title'' then parse_upload_options rest (Some v, description, mime_type)
      else if a = ''--desc'' then parse_upload_options rest (title, v, mime_type)
      else if a = ''--mime'' then parse_upload_options rest (title, description, Some v)
      else Inl a)"

definition upload_arguments ::
  "env \<Rightarrow> client \<Rightarrow> string list \<Rightarrow> string + (string \<times> string option \<times> string \<times> string option)"
  where
  \<comment> \<open>the file path, title, description and MIME type of \<^verbatim>\<open>handle_upload\<close>, from the
      arguments or from the prompts; \<open>Inl\<close> is the error printed\<close>
  "upload_arguments env st args =
     (case args of
        [] \<Rightarrow>
          if \<not> no_cli st then
            Inr (get_input env ''File path: '',
                 Some (get_input env ''Title (Enter for filename): ''),
                 get_input env ''Description (optional): '',
                 Some (get_input env ''MIME type (Enter for auto-detect): ''))
          else Inl (''Usage: upload <file_path> [--title TITLE] [--desc DESCRIPTION] ''
                    @ ''[--mime MIME_TYPE]'')
      | file_path # options \<Rightarrow>
          (case parse_upload_options options (None, [], None) of
             Inl a \<Rightarrow> Inl (''Unknown argument: '' @ a)
           | Inr (title, description, mime_type) \<Rightarrow>
               Inr (file_path, title, description, mime_type)))"

definition upload_header :: "env \<Rightarrow> string \<Rightarrow> bytes \<Rightarrow> bytes" where
  \<comment> \<open>the five statements that build \<^verbatim>\<open>header\<close> in \<^verbatim>\<open>handle_upload\<close>\<close>
  "upload_header env user pem =
     (let header = encode ''# HSYST P2P SERVICE'';
          header = header @ encode ''### START:'';
          header = header @ (encode ''# USER: '' @ encode user @ encode []);
          header = header @ (encode ''# KEY: '' @ b64encode env pem @ encode []);
          header = header @ encode ''### :END START''
      in header)"

definition handle_upload_begin :: "env \<Rightarrow> string list \<Rightarrow> client \<Rightarrow> handler_step" where
  "handle_upload_begin env args st =
     (case logged_in_user st of
        None \<Rightarrow> Returns (say (Error ''You need to be logged in to upload'') st)
      | Some user \<Rightarrow>
          (case upload_arguments env st args of
             Inl usage \<Rightarrow> Returns (say (Error usage) st)
           | Inr (file_path, title_opt, description, mime_opt) \<Rightarrow>
               (case local_files env file_path of
                  None \<Rightarrow> Returns (say (Error (''File not found: '' @ file_path)) st)
                | Some content \<Rightarrow>
                    (let title = (case title_opt of None \<Rightarrow> basename env file_path
                                  | Some t \<Rightarrow> t);
                         mime_type =
                           (case mime_opt of
                              Some m \<Rightarrow> m
                            | None \<Rightarrow>
                                (case guess_type env file_path of
                                   None \<Rightarrow> ''application/octet-stream''
                                 | Some m \<Rightarrow> if m = [] then ''application/octet-stream''
                                             else m));
                         st1 = (if \<not> via_controller st then
                                  say (Info (''MIME type: '' @ mime_type))
                                    (say (Info (''Title: '' @ title))
                                      (say (Info (''File: '' @ file_path))
                                        (say (Section ''File Upload'') st)))
                                else st)
                     in if length content > max_upload_size st1 then
                          Returns (say (Error (''File too large. Max size: '' @
                            str_nat (max_upload_size st1 div (1024 * 1024)) @ ''MB'')) st1)
                        else
                          (let header = upload_header env user (public_key_pem st1);
                               full_content_with_header = header @ content;
                               content_hash = hexdigest (sha256 env full_content_with_header);
                               signature = private_key st1 content pss_sha256 SHA256
                           in case save_content_to_storage env content_hash
                                     full_content_with_header
                                     (Some \<lparr> md_title = title,
                                             md_description = description,
                                             md_mime_type = mime_type,
                                             md_username = user,
                                             md_signature = decode (b64encode env signature),
                                             md_public_key =
                                               decode (b64encode env (public_key_pem st1)),
                                             md_verified = True \<rparr>) st1 of
                                (Some e, st2) \<Rightarrow>
                                  Returns (say (if via_controller st2
                                                then Print (''Upload error: '' @ e)
                                                else Error (''Upload error: '' @ e)) st2)
                              | (None, st2) \<Rightarrow>
                                  Waits WaitUpload
                                    (run_async (request_pow_challenge ''upload'')
                                       (st2\<lparr>pending_upload :=
                                               Some \<lparr> pu_content_hash = content_hash,
                                                      pu_title = title,
                                                      pu_description = description,
                                                      pu_mime_type = mime_type,
                                                      pu_size = length full_content_with_header,
                                                      pu_signature = signature,
                                                      pu_full_content =
                                                        full_content_with_header \<rparr>,
                                            upload_event := False,
                                            upload_result := None\<rparr>)))))))"

definition reply_success :: "reply option \<Rightarrow> bool" where
  \<comment> \<open>\<^verbatim>\<open>result and result.get('success')\<close>\<close>
  "reply_success r = (case r of None \<Rightarrow> False | Some data \<Rightarrow> dict_get (rp_success data) False)"

definition handle_upload_finish :: "nat option \<Rightarrow> client \<Rightarrow> client" where
  "handle_upload_finish set_after st =
     (if \<not> event_wait 300 set_after then
        (say (Error ''Upload timeout'') st)\<lparr>pending_upload := None\<rparr>
      else if reply_success (upload_result st) then
        (let hash_value =
               (case upload_result st of None \<Rightarrow> []
                | Some data \<Rightarrow> dict_get (rp_content_hash data) [])
         in if via_controller st then say (Print (''Upload completed. Hash: '' @ hash_value)) st
            else say (Info (''Hash: '' @ hash_value))
                   (say (Success ''Upload completed successfully!'') st))
      else say (if via_controller st then Print ''Upload failed''
                else Error ''Upload failed'') st)"

subsection \<open>\<^verbatim>\<open>network\<close> and \<^verbatim>\<open>dns-res\<close>\<close>

definition handle_network_begin :: "string list \<Rightarrow> client \<Rightarrow> handler_step" where
  \<comment> \<open>a missing loop raises in \<^verbatim>\<open>run_coroutine_threadsafe\<close>, inside the \<^verbatim>\<open>try\<close>\<close>
  "handle_network_begin args st =
     (if \<not> truthy (current_user st) then
        Returns (say (Error ''You need to be logged in to view network state'') st)
      else
        let st1 = (if \<not> via_controller st then say (Section ''P2P Network State'') st else st);
            st2 = st1\<lparr>network_event := False, network_result := None\<rparr>
        in if \<not> has_loop st2 then
             Returns (say (Error ''Network state error: no event loop'') st2)
           else Waits WaitNetwork (get_network_state st2))"

definition handle_network_finish :: "nat option \<Rightarrow> client \<Rightarrow> client" where
  \<comment> \<open>the table of the known nodes that follows the counters is display only\<close>
  "handle_network_finish set_after st =
     (if \<not> event_wait 30 set_after then say (Error ''Network state timeout'') st
      else case network_result st of
        Some (NetworkState online_nodes total_content total_dns) \<Rightarrow>
          (let l1 = ''Online nodes: '' @ str_int online_nodes;
               l2 = ''Total content: '' @ str_int total_content;
               l3 = ''Registered DNS: '' @ str_int total_dns
           in if via_controller st then say (Print l3) (say (Print l2) (say (Print l1) st))
              else say (Info l3) (say (Info l2) (say (Info l1) st)))
      | _ \<Rightarrow> say (if via_controller st then Print ''Failed to get network state''
                  else Error ''Failed to get network state'') st)"

record connection_state =
  \<comment> \<open>the entries of \<^verbatim>\<open>get_connection_state()\<close> that \<^verbatim>\<open>handle_dns_resolve\<close> reads\<close>
  cs_connected :: bool
  cs_current_server :: "string option"
  cs_current_user :: "string option"

definition handle_dns_resolve_begin ::
  "string list \<Rightarrow> connection_state option \<Rightarrow> client \<Rightarrow> handler_step" where
  "handle_dns_resolve_begin args conn st =
     (if \<not> truthy (current_user st) \<and> conn = None then
        Returns (say (Error ''You need to be logged in to resolve DNS'') st)
      else case args of
        [] \<Rightarrow> Returns (say (Error ''Usage: dns-res <domain>'') st)
      | arg # rest \<Rightarrow>
          (let domain = lower arg;
               st1 = (if \<not> via_controller st
                      then say (Info (''Domain: '' @ domain)) (say (Section ''DNS Resolution'') st)
                      else st);
               st2 = st1\<lparr>dns_event := False, dns_result := None\<rparr>;
               st3 = (case conn of
                        None \<Rightarrow> st2
                      | Some cs \<Rightarrow>
                          if cs_connected cs then
                            st2\<lparr>connected := True, current_server := cs_current_server cs,
                                current_user := cs_current_user cs\<rparr>
                          else st2)
           in if \<not> connected st3 then Returns (say (Error ''Not connected to server'') st3)
              else if \<not> has_loop st3 then
                Returns (say (Error ''Network loop not available'') st3)
              else Waits WaitDnsResolve (resolve_dns domain st3)))"

definition handle_dns_resolve_finish :: "nat option \<Rightarrow> client \<Rightarrow> client" where
  "handle_dns_resolve_finish set_after st =
     (if \<not> event_wait 30 set_after then say (Error ''DNS resolution timeout'') st
      else if reply_success (dns_result st) then
        (case dns_result st of
           None \<Rightarrow> st
         | Some data \<Rightarrow>
             if via_controller st then say (Print (str_opt (rp_content_hash data))) st
             else say (Info (''Verified: '' @
                         (if dict_get (rp_verified data) False then ''Yes'' else ''No'')))
                    (say (Info (''Owner: '' @ str_opt (rp_username data)))
                      (say (Info (''Hash: '' @ str_opt (rp_content_hash data)))
                        (say (Success ''DNS resolved successfully!'') st))))
      else say (if via_controller st then Print ''DNS resolution failed''
                else Error ''DNS resolution failed'') st)"

subsection \<open>\<^verbatim>\<open>download\<close>\<close>

fun parse_download_options :: "string list \<Rightarrow> string option \<Rightarrow> string + string option" where
  "parse_download_options [] output_path = Inr output_path"
| "parse_download_options [a] output_path = Inl a"
| "parse_download_options (a # v # rest) output_path =
     (if a = ''--output'' then parse_download_options rest (Some v) else Inl a)"

definition handle_download_begin :: "string list \<Rightarrow> client \<Rightarrow> handler_step" where
  "handle_download_begin args st =
     (if \<not> truthy (current_user st) then
        Returns (say (Error ''You need to be logged in to download'') st)
      else case args of
        [] \<Rightarrow> Returns (say (Error ''Usage: download <hash_or_url> [--output PATH]'') st)
      | target # options \<Rightarrow>
          (case parse_download_options options None of
             Inl a \<Rightarrow> Returns (say (Error (''Unknown argument: '' @ a)) st)
           | Inr output_path \<Rightarrow>
               (let st1 = (if \<not> via_controller st then say (Section ''Content Download'') st
                           else st);
                    request = (\<lambda>content_hash.
                      Waits (WaitContent output_path)
                        (run_async (request_content_by_hash content_hash)
                           (st1\<lparr>content_event := False, content_result := None\<rparr>)))
                in if startswith target ''hps://'' then
                     (if target = ''hps://rede'' then
                        handle_network_begin [] (say (Info ''Showing P2P network...'') st1)
                      else if startswith target ''hps://dns:'' then
                        (let domain = drop (length ''hps://dns:'') target in
                         handle_dns_resolve_begin [domain] None
                           (say (Info (''Resolving DNS: '' @ domain)) st1))
                      else request (drop (length ''hps://'') target))
                   else request target)))"

definition handle_download_finish :: "env \<Rightarrow> string option \<Rightarrow> nat option \<Rightarrow> client \<Rightarrow> client"
  where
  \<comment> \<open>the content is written to the output path whatever \<^verbatim>\<open>integrity_ok\<close> says\<close>
  "handle_download_finish env output_path set_after st =
     (if \<not> event_wait 30 set_after then say (Error ''Download timeout'') st
      else case content_result st of
        Some (ContentInfo content_info) \<Rightarrow>
          (let meta = ci_meta content_info;
               path =
                 (case output_path of
                    Some p \<Rightarrow> p
                  | None \<Rightarrow>
                      (let p = ''./'' @ md_title meta in
                       if splitext_ext env p = [] then
                         p @ (case guess_extension env (md_mime_type meta) of
                                None \<Rightarrow> ''.dat''
                              | Some ext \<Rightarrow> if ext = [] then ''.dat'' else ext)
                       else p))
           in case fs_fault env of
                Some e \<Rightarrow> say (if via_controller st then Print (''Error saving file: '' @ e)
                               else Error (''Error saving file: '' @ e)) st
              | None \<Rightarrow>
                  (let st1 = st\<lparr>saved_files :=
                                   AList.update path (ci_content content_info) (saved_files st)\<rparr>
                   in if via_controller st1 then say (Print path) st1
                      else
                        say (Info (''Verified: '' @ (if md_verified meta then ''Yes'' else ''No'')))
                          (say (Info (''Size: '' @
                                  str_nat (length (ci_content content_info)) @ '' bytes''))
                            (say (Info (''Type: '' @ md_mime_type meta))
                              (say (Info (''Author: '' @ md_username meta))
                                (say (Info (''Title: '' @ md_title meta))
                                  (say (Success (''Content saved to: '' @ path)) st1)))))))
      | _ \<Rightarrow> say (if via_controller st then Print ''Download failed''
                  else Error ''Download failed'') st)"

subsection \<open>\<^verbatim>\<open>dns-reg\<close> and \<^verbatim>\<open>search\<close>: after the wait\<close>

definition handle_dns_register_finish :: "nat option \<Rightarrow> client \<Rightarrow> client" where
  "handle_dns_register_finish set_after st =
     (if \<not> event_wait 300 set_after then
        (say (Error ''DNS registration timeout'') st)\<lparr>pending_dns := None\<rparr>
      else if reply_success (dns_result st) then
        say (if via_controller st then Print ''DNS registered successfully''
             else Success ''DNS registered successfully!'') st
      else say (if via_controller st then Print ''DNS registration failed''
                else Error ''DNS registration failed'') st)"

definition handle_search_finish :: "nat option \<Rightarrow> client \<Rightarrow> client" where
  \<comment> \<open>an empty list of results is false in Python and takes the last branch; a table of
      results is one display message here\<close>
  "handle_search_finish set_after st =
     (if \<not> event_wait 30 set_after then say (Error ''Search timeout'') st
      else case search_result st of
        Some (SearchResults (r # rs)) \<Rightarrow>
          (if via_controller st
           then foldl (\<lambda>s (h, t, u). say (Print (h @ ''|'' @ t @ ''|'' @ u)) s) st (r # rs)
           else say (Info ''Search results'') st)
      | _ \<Rightarrow> say (if via_controller st then Print ''Search failed''
                  else Error ''Search failed'') st)"

subsection \<open>\<^verbatim>\<open>report\<close>\<close>

definition count_reports :: "string \<Rightarrow> string \<Rightarrow> report_row list \<Rightarrow> nat" where
  \<comment> \<open>\<^verbatim>\<open>SELECT COUNT(*) FROM cli_reports WHERE reporter_user = ? AND content_hash = ?\<close>\<close>
  "count_reports reporter content_hash rows =
     length (filter (\<lambda>r. rep_reporter_user r = reporter \<and> rep_content_hash r = content_hash)
               rows)"

definition handle_report_begin :: "env \<Rightarrow> string list \<Rightarrow> client \<Rightarrow> handler_step" where
  "handle_report_begin env args st =
     (case logged_in_user st of
        None \<Rightarrow> Returns (say (Error ''You need to be logged in to report content'') st)
      | Some user \<Rightarrow>
          (case args of
             content_hash # reported # rest \<Rightarrow>
               if reported = user then
                 Returns (say (Error ''You cannot report your own content'') st)
               else if reputation st < 20 then
                 Returns (say (Error ''Your reputation is too low to report content'') st)
               else
                 (let st1 = (if \<not> via_controller st then
                               say (Info (''Your reputation: '' @ str_int (reputation st)))
                                 (say (Info (''Reported user: '' @ reported))
                                   (say (Info (''Hash: '' @ content_hash))
                                     (say (Section ''Content Report'') st)))
                             else st)
                  in case db_fault env of
                       Some e \<Rightarrow> Raises e st1
                     | None \<Rightarrow>
                         (let count = count_reports user content_hash (cli_reports st1) in
                          if count > 0 then
                            Returns (say (Error ''You have already reported this content'') st1)
                          else
                            Waits WaitReport
                              (run_async (request_pow_challenge ''report'')
                                 (st1\<lparr>pending_report := Some (content_hash, reported),
                                      report_event := False,
                                      report_result := None\<rparr>))))
           | _ \<Rightarrow> Returns (say (Error ''Usage: report <content_hash> <reported_user>'') st)))"

definition handle_report_finish :: "nat option \<Rightarrow> client \<Rightarrow> client" where
  "handle_report_finish set_after st =
     (if \<not> event_wait 300 set_after then
        (say (Error ''Report timeout'') st)\<lparr>pending_report := None\<rparr>
      else if reply_success (report_result st) then
        say (if via_controller st then Print ''Content reported successfully''
             else Success ''Content reported successfully!'') st
      else say (if via_controller st then Print ''Report failed''
                else Error ''Report failed'') st)"

subsection \<open>After the wait\<close>

definition resume :: "env \<Rightarrow> wait_kind \<Rightarrow> nat option \<Rightarrow> client \<Rightarrow> client" where
  "resume env kind set_after st =
     (case kind of
        WaitUpload \<Rightarrow> handle_upload_finish set_after st
      | WaitContent output_path \<Rightarrow> handle_download_finish env output_path set_after st
      | WaitDnsRegister \<Rightarrow> handle_dns_register_finish set_after st
      | WaitDnsResolve \<Rightarrow> handle_dns_resolve_finish set_after st
      | WaitSearch \<Rightarrow> handle_search_finish set_after st
      | WaitNetwork \<Rightarrow> handle_network_finish set_after st
      | WaitReport \<Rightarrow> handle_report_finish set_after st)"

definition after_step :: "handler_step \<Rightarrow> client" where
  \<comment> \<open>the client object as a handler leaves it\<close>
  "after_step s = (case s of Returns st \<Rightarrow> st | Raises e st \<Rightarrow> st | Waits kind st \<Rightarrow> st)"

section \<open>Runs of the client\<close>

text \<open>
  The operations above as steps of one run: commands up to their wait, the rest of a
  command after its wait, and the events of the server and of the transport, each with
  the environment it runs in.
\<close>

datatype operation =
    Upload "string list"
  | Download "string list"
  | Network
  | DnsResolve "string list" "connection_state option"
  | Report "string list"
  | Logout
  | Resume wait_kind "nat option"
  | OnDisconnect
  | OnPowChallenge pow_challenge_data
  | OnContentResponse content_response_data
  | OnPublishResult reply
  | OnDnsResult reply
  | OnReportResult reply
  | OnSearchResults search_result
  | OnNetworkState network_result

definition step :: "env \<Rightarrow> operation \<Rightarrow> client \<Rightarrow> client" where
  "step env operation st =
     (case operation of
        Upload args \<Rightarrow> after_step (handle_upload_begin env args st)
      | Download args \<Rightarrow> after_step (handle_download_begin args st)
      | Network \<Rightarrow> after_step (handle_network_begin [] st)
      | DnsResolve args conn \<Rightarrow> after_step (handle_dns_resolve_begin args conn st)
      | Report args \<Rightarrow> after_step (handle_report_begin env args st)
      | Logout \<Rightarrow> snd (handle_logout env st)
      | Resume kind set_after \<Rightarrow> resume env kind set_after st
      | OnDisconnect \<Rightarrow> disconnect st
      | OnPowChallenge data \<Rightarrow> pow_challenge env data st
      | OnContentResponse data \<Rightarrow> content_response env data st
      | OnPublishResult data \<Rightarrow> publish_result env data st
      | OnDnsResult data \<Rightarrow> dns_result_event env data st
      | OnReportResult data \<Rightarrow> report_result_event env data st
      | OnSearchResults data \<Rightarrow> search_results data st
      | OnNetworkState data \<Rightarrow> network_state data st)"

fun run :: "(env \<times> operation) list \<Rightarrow> client \<Rightarrow> client" where
  "run [] st = st"
| "run ((env, operation) # rest) st = run rest (step env operation st)"

section \<open>What the specification states about the store and the framed blob\<close>

text \<open>
  The integrity invariant of the specification, in its words: for every row of
  \<^verbatim>\<open>content_cache\<close>, the SHA-256 digest of the bytes of the stored file equals the hash
  that is the key of the row.
\<close>

definition store_integrity :: "env \<Rightarrow> client \<Rightarrow> bool" where
  "store_integrity env st =
     list_all (\<lambda>(content_hash, row).
                 case map_of (content_files st) content_hash of
                   None \<Rightarrow> False
                 | Some file_bytes \<Rightarrow> hexdigest (sha256 env file_bytes) = content_hash)
       (cli_content_cache st)"

text \<open>
  The header of a framed blob as the specification writes it:
  \<^verbatim>\<open># HSYST P2P SERVICE### START:# USER: <username># KEY: <base64(public_key_pem)>### :END START\<close>
\<close>

definition framed_header :: "env \<Rightarrow> string \<Rightarrow> bytes \<Rightarrow> bytes" where
  "framed_header env user pem =
     encode ''# HSYST P2P SERVICE### START:# USER: '' @ encode user
       @ encode ''# KEY: '' @ b64encode env pem @ encode ''### :END START''"

section \<open>Concrete inputs\<close>

text \<open>
  An environment and a client on which the definitions can be run: stand-ins for the
  library functions (the digest of \<open>d\<close> is the one byte \<open>length d\<close>, base64 is the
  identity, a signature is the signed data), one readable file, a clock that advances by
  one second within a call, no faults; and a client that is logged in as \<open>alice\<close>.
\<close>

definition sample_key :: private_key where
  "sample_key = (\<lambda>data pad alg. data)"

definition sample_env :: env where
  "sample_env =
     \<lparr> sha256 = (\<lambda>d. [of_nat (length d)]),
       b64encode = (\<lambda>b. b),
       b64decode = (\<lambda>s. Inr (encode s)),
       local_files = (\<lambda>p. if p = ''hello.txt'' then Some (encode ''hello'') else None),
       basename = (\<lambda>p. p),
       splitext_ext = (\<lambda>p. []),
       guess_type = (\<lambda>p. None),
       guess_extension = (\<lambda>m. None),
       get_input = (\<lambda>p. []),
       now = 1000,
       later = 1001,
       fs_fault = None,
       db_fault = None,
       mining_fuel = 1000,
       hashrate_observed = 0 \<rparr>"

definition sample_client :: client where
  "sample_client =
     (initial_client sample_key (encode ''PEM'') ''client-1'')
       \<lparr> current_user := Some ''alice'', username := Some ''alice'',
         current_server := Some ''http://server'', connected := True,
         sio_connected := True \<rparr>"


section \<open>The proof-of-work solver\<close>

lemma index_per_byte:
  "\<forall>n \<in> set [0..<256]. index (zfill 8 (bin n)) CHR ''1'' =
      (if n = 0 then None else Some (length (takeWhile Not (bits_of_byte (of_nat n)))))"
  by code_simp

lemma index_byte:
  fixes b :: byte
  assumes "b \<noteq> 0"
  shows "index (zfill 8 (bin (unat b))) CHR ''1'' = Some (length (takeWhile Not (bits_of_byte b)))"
proof -
  have lt: "unat b < 256" using unsigned_less [of b, where ?'a = nat] by simp
  have nz: "unat b \<noteq> 0" using assms by (simp add: unat_eq_0)
  from lt have "unat b \<in> set [0..<256]" by simp
  with index_per_byte nz show ?thesis by fastforce
qed

lemma bits_of_zero: "bits_of_byte 0 = replicate 8 False"
  by (simp add: bits_of_byte_def numeral_eq_Suc)

lemma bits_of_nonzero:
  fixes b :: byte
  assumes "b \<noteq> 0"
  shows "\<exists>x \<in> set (bits_of_byte b). \<not> Not x"
proof -
  from assms obtain i where "bit b i" by (auto simp: bit_eq_iff)
  moreover then have "i < 8" using bit_imp_le_length [of b i] by simp
  ultimately have "bit b i \<and> i \<in> {0,1,2,3,4,5,6,7}" by auto
  then show ?thesis by (auto simp: bits_of_byte_def)
qed

lemma count_Cons_zero:
  "count_leading_zero_bits (0 # h) = 8 + count_leading_zero_bits h"
proof -
  have "takeWhile Not (replicate 8 False @ bit_string h)
          = replicate 8 False @ takeWhile Not (bit_string h)"
    by (rule takeWhile_append2) simp
  then show ?thesis
    by (simp add: count_leading_zero_bits_def bit_string_def bits_of_zero)
qed

lemma count_Cons_nonzero:
  assumes "b \<noteq> 0"
  shows "count_leading_zero_bits (b # h) = length (takeWhile Not (bits_of_byte b))"
proof -
  from assms obtain x where "x \<in> set (bits_of_byte b)" "\<not> Not x"
    using bits_of_nonzero [of b] by blast
  then have "takeWhile Not (bits_of_byte b @ bit_string h) = takeWhile Not (bits_of_byte b)"
    by (rule takeWhile_append1)
  then show ?thesis
    by (simp add: count_leading_zero_bits_def bit_string_def)
qed

lemma lzb_loop_count:
  "lzb_loop count h = Some (count + count_leading_zero_bits h)"
proof (induction h arbitrary: count)
  case Nil
  show ?case by (simp add: count_leading_zero_bits_def bit_string_def)
next
  case (Cons b h)
  show ?case
  proof (cases "b = 0")
    case True
    then show ?thesis using Cons.IH [of "count + 8"] by (simp add: count_Cons_zero)
  next
    case False
    then show ?thesis by (simp add: index_byte count_Cons_nonzero)
  qed
qed

lemma leading_zero_bits_count: "leading_zero_bits h = Some (count_leading_zero_bits h)"
  by (simp add: leading_zero_bits_def lzb_loop_count)

lemma solve_loop_sound:
  "solve_loop H cb t fuel k = Some n \<Longrightarrow>
     k \<le> n \<and> n < k + fuel \<and> n < 2 ^ 64
     \<and> t \<le> int (count_leading_zero_bits (H (cb @ uint64_be n)))
     \<and> (\<forall>m. k \<le> m \<and> m < n \<longrightarrow> int (count_leading_zero_bits (H (cb @ uint64_be m))) < t)"
proof (induction fuel arbitrary: k)
  case 0
  then show ?case by simp
next
  case (Suc fuel)
  show ?case
  proof (cases "k < 2 ^ 64")
    case False
    with Suc.prems show ?thesis by (simp add: struct_pack_Q_def)
  next
    case inrange: True
    show ?thesis
    proof (cases "t \<le> int (count_leading_zero_bits (H (cb @ uint64_be k)))")
      case True
      with Suc.prems inrange have "n = k"
        by (simp add: struct_pack_Q_def leading_zero_bits_count)
      with True inrange show ?thesis by simp
    next
      case False
      with Suc.prems inrange have "solve_loop H cb t fuel (k + 1) = Some n"
        by (simp add: struct_pack_Q_def leading_zero_bits_count)
      from Suc.IH [OF this]
      have ih: "Suc k \<le> n" "n < Suc k + fuel" "n < 2 ^ 64"
        "t \<le> int (count_leading_zero_bits (H (cb @ uint64_be n)))"
        "\<And>m. Suc k \<le> m \<Longrightarrow> m < n
           \<Longrightarrow> int (count_leading_zero_bits (H (cb @ uint64_be m))) < t"
        by simp_all
      have "int (count_leading_zero_bits (H (cb @ uint64_be m))) < t"
        if "k \<le> m" "m < n" for m
      proof (cases "m = k")
        case True
        with False show ?thesis by simp
      next
        case False
        with that have "Suc k \<le> m" by simp
        with that show ?thesis by (simp add: ih(5))
      qed
      with ih show ?thesis by simp
    qed
  qed
qed

lemma solve_loop_complete:
  "k \<le> n \<Longrightarrow> n < k + fuel \<Longrightarrow> n < 2 ^ 64 \<Longrightarrow>
   t \<le> int (count_leading_zero_bits (H (cb @ uint64_be n))) \<Longrightarrow>
   (\<forall>m. k \<le> m \<and> m < n \<longrightarrow> int (count_leading_zero_bits (H (cb @ uint64_be m))) < t) \<Longrightarrow>
   solve_loop H cb t fuel k = Some n"
proof (induction fuel arbitrary: k)
  case 0
  then show ?case by simp
next
  case (Suc fuel)
  have kr: "k < 2 ^ 64" using Suc.prems(1,3) by simp
  show ?case
  proof (cases "k = n")
    case True
    with Suc.prems kr show ?thesis by (simp add: struct_pack_Q_def leading_zero_bits_count)
  next
    case False
    with Suc.prems have lt: "k < n" by simp
    with Suc.prems(5) have nk: "\<not> t \<le> int (count_leading_zero_bits (H (cb @ uint64_be k)))"
      by (simp add: not_le)
    have "solve_loop H cb t fuel (k + 1) = Some n"
      using Suc.prems lt by (intro Suc.IH) auto
    with kr nk show ?thesis by (simp add: struct_pack_Q_def leading_zero_bits_count)
  qed
qed

text \<open>
  C3. \<open>leading_zero_bits\<close> returns the number of leading zero bits of the byte string.
  When \<open>solve_challenge\<close> returns a nonce \<open>n\<close> for the challenge \<open>c\<close> and the target \<open>t\<close>,
  the challenge decodes to some bytes \<open>cb\<close>, the digest of \<open>cb\<close> followed by the eight
  big-endian bytes of \<open>n\<close> has at least \<open>t\<close> leading zero bits, and no smaller natural
  number has that property. The solver does return that least nonce whenever it is not
  already busy, the least nonce fits 64 bits and the number of iterations it is allowed
  exceeds it. For the target 0 the returned nonce is 0, for every challenge that decodes
  and every run that is allowed at least one iteration.
\<close>

theorem pow_solver_correct:
  "leading_zero_bits h = Some (count_leading_zero_bits h)
   \<and> (solve_challenge H dec solving fuel c t = Some n \<longrightarrow>
        (\<exists>cb. dec c = Inr cb
           \<and> t \<le> int (count_leading_zero_bits (H (cb @ uint64_be n)))
           \<and> (\<forall>m<n. int (count_leading_zero_bits (H (cb @ uint64_be m))) < t)))
   \<and> (\<not> solving \<and> dec c = Inr cb' \<and> n' < fuel \<and> n' < 2 ^ 64
        \<and> t \<le> int (count_leading_zero_bits (H (cb' @ uint64_be n')))
        \<and> (\<forall>m<n'. int (count_leading_zero_bits (H (cb' @ uint64_be m))) < t)
      \<longrightarrow> solve_challenge H dec solving fuel c t = Some n')
   \<and> (dec c = Inr cb' \<longrightarrow> solve_challenge H dec False (Suc fuel) c 0 = Some 0)
   \<and> (solve_challenge H dec solving fuel c 0 = Some n \<longrightarrow> n = 0)"
proof (intro conjI impI)
  show "leading_zero_bits h = Some (count_leading_zero_bits h)"
    by (rule leading_zero_bits_count)
next
  assume "solve_challenge H dec solving fuel c t = Some n"
  then obtain cb where cb: "dec c = Inr cb" and loop: "solve_loop H cb t fuel 0 = Some n"
    by (auto simp: solve_challenge_def split: if_splits sum.splits)
  from solve_loop_sound [OF loop] cb
  show "\<exists>cb. dec c = Inr cb
           \<and> t \<le> int (count_leading_zero_bits (H (cb @ uint64_be n)))
           \<and> (\<forall>m<n. int (count_leading_zero_bits (H (cb @ uint64_be m))) < t)"
    by auto
next
  assume a: "\<not> solving \<and> dec c = Inr cb' \<and> n' < fuel \<and> n' < 2 ^ 64
        \<and> t \<le> int (count_leading_zero_bits (H (cb' @ uint64_be n')))
        \<and> (\<forall>m<n'. int (count_leading_zero_bits (H (cb' @ uint64_be m))) < t)"
  then have "solve_loop H cb' t fuel 0 = Some n'"
    by (intro solve_loop_complete) auto
  with a show "solve_challenge H dec solving fuel c t = Some n'"
    by (simp add: solve_challenge_def)
next
  assume "dec c = Inr cb'"
  then show "solve_challenge H dec False (Suc fuel) c 0 = Some 0"
    by (simp add: solve_challenge_def struct_pack_Q_def leading_zero_bits_count)
next
  assume "solve_challenge H dec solving fuel c 0 = Some n"
  then obtain cb where "solve_loop H cb 0 fuel 0 = Some n"
    by (auto simp: solve_challenge_def split: if_splits sum.splits)
  from solve_loop_sound [OF this] have "\<forall>m<n. int (count_leading_zero_bits (H (cb @ uint64_be m))) < 0"
    by simp
  then show "n = 0" by (cases n) auto
qed

text \<open>A run on a stand-in for the hash: the digest is the single byte \<open>16 - last d\<close>.\<close>

lemma toy_count:
  "count_leading_zero_bits [16 - last (cb @ uint64_be 1)] = 4"
  "count_leading_zero_bits [16 - last (cb @ uint64_be 0)] = 3"
  by (simp_all add: count_leading_zero_bits_def bit_string_def bits_of_byte_def uint64_be_def
        bit_numeral_simps)

theorem pow_solver_correct_witness:
  "leading_zero_bits [0, 0, 5] = Some 21
   \<and> solve_challenge (\<lambda>d. [16 - last d]) (\<lambda>s. Inr (encode s)) False 2 ''c'' 4 = Some 1
   \<and> 4 \<le> int (count_leading_zero_bits [16 - last (encode ''c'' @ uint64_be 1)])
   \<and> int (count_leading_zero_bits [16 - last (encode ''c'' @ uint64_be 0)]) < 4
   \<and> solve_challenge (\<lambda>d. [16 - last d]) (\<lambda>s. Inr (encode s)) False (Suc 1) ''c'' 0 = Some 0"
proof -
  let ?H = "\<lambda>d :: bytes. [16 - last d]"
  let ?dec = "\<lambda>s. Inr (encode s) :: string + bytes"
  note inst = pow_solver_correct [of "[0, 0, 5]" "?H" "?dec" False 2 "''c''" 4 1 "encode ''c''" 1]
  have cnt: "count_leading_zero_bits [0, 0, 5] = 21"
    by (simp add: count_leading_zero_bits_def bit_string_def bits_of_byte_def bit_numeral_simps)
  have hyp: "\<not> False \<and> ?dec ''c'' = Inr (encode ''c'') \<and> (1::nat) < 2 \<and> (1::nat) < 2 ^ 64
        \<and> 4 \<le> int (count_leading_zero_bits (?H (encode ''c'' @ uint64_be 1)))
        \<and> (\<forall>m<1. int (count_leading_zero_bits (?H (encode ''c'' @ uint64_be m))) < 4)"
    by (simp add: toy_count toy_count [unfolded One_nat_def])
  from inst hyp have run: "solve_challenge ?H ?dec False 2 ''c'' 4 = Some 1" by blast
  from inst have a: "leading_zero_bits [0, 0, 5] = Some (count_leading_zero_bits [0, 0, 5])"
    by blast
  from inst run obtain cb where cb: "?dec ''c'' = Inr cb"
    "4 \<le> int (count_leading_zero_bits (?H (cb @ uint64_be 1)))"
    "\<forall>m<1. int (count_leading_zero_bits (?H (cb @ uint64_be m))) < 4" by blast
  from cb(1) have cbe: "cb = encode ''c''" by simp
  from cb(3) have lt: "int (count_leading_zero_bits (?H (cb @ uint64_be 0))) < 4" by simp
  from pow_solver_correct [of "[]" "?H" "?dec" False 1 "''c''" 0 0 "encode ''c''" 0]
  have z: "solve_challenge ?H ?dec False (Suc 1) ''c'' 0 = Some 0" by blast
  show ?thesis using a cnt run cb(2) lt z cbe by simp
qed

section \<open>The controller log protocol\<close>

text \<open>
  C5. The claim asks that the finished log of every command has the status on line 1,
  the message on line 2 and the terminal indicator on line 3, also when the captured
  output is empty, and that \<open>send_command\<close> reports success when line 3 is \<open>1\<close>. The
  code does not do this for a handler that prints nothing (\<^verbatim>\<open>clear\<close> with \<^verbatim>\<open>--no-cli\<close>):
  \<open>write_log_status\<close> leaves out the empty message line, the indicator lands on line 2,
  line 3 does not exist, and the sender polls until its timeout. Nor for a handler that
  prints two lines: line 3 is then the second line of the output and the sender reports
  a failure. A handler that prints one line gives the layout of the claim.
\<close>

theorem controller_log_empty_message:
  "execute_command_with_log
       (\<lambda>c. if c = ''clear'' then Some (\<lambda>args conn. Completed [] []) else None) None ''clear''
     = ''1'' @ [LF] @ ''1'' @ [LF]
   \<and> read_log_file (Some (''1'' @ [LF] @ ''1'' @ [LF]))
       = Some \<lparr> log_status = ''1'', log_message = ''1'', log_result = [] \<rparr>
   \<and> send_command_wait ''log'' True (replicate 5 (Some (''1'' @ [LF] @ ''1'' @ [LF])))
       = (False, ''Timeout waiting for command execution'')
   \<and> execute_command_with_log
       (\<lambda>c. if c = ''stats'' then Some (\<lambda>args conn. Completed (''a'' @ [LF] @ ''b'' @ [LF]) [])
             else None) None ''stats''
     = ''1'' @ [LF] @ ''a'' @ [LF] @ ''b'' @ [LF] @ ''1'' @ [LF]
   \<and> send_command_wait ''log'' True [Some (''1'' @ [LF] @ ''a'' @ [LF] @ ''b'' @ [LF] @ ''1'' @ [LF])]
       = (False, ''a'')
   \<and> execute_command_with_log
       (\<lambda>c. if c = ''help'' then Some (\<lambda>args conn. Completed (''ok'' @ [LF]) []) else None)
       None ''help''
     = ''1'' @ [LF] @ ''ok'' @ [LF] @ ''1'' @ [LF]
   \<and> send_command_wait ''log'' True [Some (''1'' @ [LF] @ ''ok'' @ [LF] @ ''1'' @ [LF])]
       = (True, ''ok'')"
  by code_simp

section \<open>Logout and disconnect\<close>

text \<open>
  C9, as stated, fails: after \<open>handle_logout\<close> on a logged-in client \<open>current_server\<close>
  still holds the server, and the \<open>disconnect\<close> event clears neither \<open>current_user\<close> nor
  \<open>current_server\<close>.
\<close>

theorem logout_disconnect_counterexample:
  "current_server (snd (handle_logout sample_env sample_client)) = Some ''http://server''
   \<and> current_user (disconnect sample_client) = Some ''alice''
   \<and> current_server (disconnect sample_client) = Some ''http://server''"
  by (simp add: handle_logout_def disconnect_def sample_client_def sample_env_def
        initial_client_def truthy_def run_async_def say_def save_session_state_def Let_def)

text \<open>
  C9, amended. After \<open>handle_logout\<close> on a logged-in client \<open>current_user\<close> and
  \<open>username\<close> are cleared and \<open>connected\<close> is false, while \<open>current_server\<close> keeps its
  value. The \<open>disconnect\<close> event sets \<open>connected\<close> to false and leaves \<open>current_user\<close>
  and \<open>current_server\<close> as they are (the reconnect worker needs the server).
\<close>

theorem logout_disconnect_effect:
  "(truthy (current_user st) \<longrightarrow>
      current_user (snd (handle_logout env st)) = None
      \<and> username (snd (handle_logout env st)) = None
      \<and> \<not> connected (snd (handle_logout env st))
      \<and> current_server (snd (handle_logout env st)) = current_server st)
   \<and> \<not> connected (disconnect st)
   \<and> current_user (disconnect st) = current_user st
   \<and> current_server (disconnect st) = current_server st"
  by (simp add: handle_logout_def disconnect_def run_async_def say_def
        save_session_state_def Let_def split: option.splits)

theorem logout_disconnect_effect_witness:
  "truthy (current_user sample_client)
   \<and> current_user (snd (handle_logout sample_env sample_client)) = None
   \<and> current_server (snd (handle_logout sample_env sample_client)) = Some ''http://server''
   \<and> \<not> connected (disconnect sample_client)"
proof -
  have t: "truthy (current_user sample_client)"
    by (simp add: sample_client_def truthy_def)
  have s: "current_server sample_client = Some ''http://server''"
    by (simp add: sample_client_def)
  from logout_disconnect_effect [of sample_client sample_env] t s show ?thesis by simp
qed

section \<open>The error path of \<open>pow_challenge\<close>\<close>

lemmas handler_defs =
  handle_report_begin_def logged_in_user_def run_async_def request_pow_challenge_def
  say_def sio_emit_def count_reports_def after_step_def

lemmas sample_defs = sample_client_def sample_env_def initial_client_def sample_key_def

text \<open>
  C8, as stated, fails: a report is in flight (\<open>pending_report\<close> is set), the server
  answers the request for a challenge with an error and \<open>blocked_until = 2000\<close>; after the
  handler \<open>pending_report\<close> is still set, and \<open>banned_until\<close> is 2001, since one second
  passes between the two readings of the clock.
\<close>

theorem pow_challenge_error_counterexample:
  "pending_report (after_step (handle_report_begin sample_env [''H'', ''bob''] sample_client))
     = Some (''H'', ''bob'')
   \<and> pending_report
       (pow_challenge sample_env
          \<lparr> pc_error = Some ''Too many requests'', pc_blocked_until = Some 2000,
            pc_challenge = None, pc_target_bits = None, pc_action_type = Some ''report'' \<rparr>
          (after_step (handle_report_begin sample_env [''H'', ''bob''] sample_client)))
     = Some (''H'', ''bob'')
   \<and> banned_until
       (pow_challenge sample_env
          \<lparr> pc_error = Some ''Too many requests'', pc_blocked_until = Some 2000,
            pc_challenge = None, pc_target_bits = None, pc_action_type = Some ''report'' \<rparr>
          (after_step (handle_report_begin sample_env [''H'', ''bob''] sample_client)))
     = Some 2001"
  by (simp add: pow_challenge_def handle_ban_def handler_defs sample_defs Let_def)

text \<open>
  C8, amended. When a \<open>pow_challenge\<close> event carries an error and \<open>blocked_until\<close>, the
  client enters the banned state with \<open>banned_until\<close> equal to \<open>blocked_until\<close> plus the
  time that passes between the clock reading of the handler and that of \<open>handle_ban\<close>;
  the error, the reason \<open>Rate limit exceeded\<close> and the remaining duration are shown; the
  handler emits nothing and leaves every pending context as it is.
\<close>

theorem pow_challenge_error_path:
  "pc_error data = Some e \<and> pc_blocked_until data = Some blocked_until \<longrightarrow>
     banned_until (pow_challenge env data st) = Some (blocked_until + (later env - now env))
     \<and> ban_duration (pow_challenge env data st) = blocked_until - now env
     \<and> ban_reason (pow_challenge env data st) = ''Rate limit exceeded''
     \<and> display (pow_challenge env data st)
         = display st @ [Error (''PoW challenge error: '' @ e),
                         Warning (''Banned for '' @ str_int (blocked_until - now env)
                                  @ ''s: Rate limit exceeded'')]
     \<and> pending_login (pow_challenge env data st) = pending_login st
     \<and> pending_upload (pow_challenge env data st) = pending_upload st
     \<and> pending_dns (pow_challenge env data st) = pending_dns st
     \<and> pending_report (pow_challenge env data st) = pending_report st
     \<and> emitted (pow_challenge env data st) = emitted st"
  by (simp add: pow_challenge_def handle_ban_def say_def Let_def)

theorem pow_challenge_error_path_witness:
  "banned_until
       (pow_challenge sample_env
          \<lparr> pc_error = Some ''Too many requests'', pc_blocked_until = Some 2000,
            pc_challenge = None, pc_target_bits = None, pc_action_type = Some ''upload'' \<rparr>
          sample_client) = Some (2000 + (1001 - 1000))
   \<and> ban_reason
       (pow_challenge sample_env
          \<lparr> pc_error = Some ''Too many requests'', pc_blocked_until = Some 2000,
            pc_challenge = None, pc_target_bits = None, pc_action_type = Some ''upload'' \<rparr>
          sample_client) = ''Rate limit exceeded''"
  using pow_challenge_error_path
    [of "\<lparr> pc_error = Some ''Too many requests'', pc_blocked_until = Some 2000,
            pc_challenge = None, pc_target_bits = None, pc_action_type = Some ''upload'' \<rparr>"
        "''Too many requests''" 2000 sample_env sample_client]
  by (simp add: sample_env_def)

section \<open>The timeouts of the blocking handlers\<close>

text \<open>
  C6, as stated, fails: a reply that arrives 100 seconds after \<open>download\<close>, \<open>dns-res\<close>,
  \<open>search\<close> or \<open>network\<close> began to wait is within 300 seconds, and the handler has
  already given up with a timeout.
\<close>

theorem handler_timeout_counterexample:
  "resume sample_env (WaitContent None) (Some 100) sample_client
     = say (Error ''Download timeout'') sample_client
   \<and> resume sample_env WaitDnsResolve (Some 100) sample_client
     = say (Error ''DNS resolution timeout'') sample_client
   \<and> resume sample_env WaitSearch (Some 100) sample_client
     = say (Error ''Search timeout'') sample_client
   \<and> resume sample_env WaitNetwork (Some 100) sample_client
     = say (Error ''Network state timeout'') sample_client"
  by (simp add: resume_def handle_download_finish_def handle_dns_resolve_finish_def
        handle_search_finish_def handle_network_finish_def event_wait_def)

text \<open>
  C6, amended. \<open>upload\<close>, \<open>dns-reg\<close> and \<open>report\<close> wait up to 300 seconds for their
  terminal event: a reply within that time is handled like an immediate one, and on
  timeout the handler prints an error and clears its pending context. \<open>download\<close>,
  \<open>dns-res\<close>, \<open>search\<close> and \<open>network\<close> wait up to 30 seconds: a reply within that time
  is handled like an immediate one, and on timeout the handler prints an error and
  changes nothing else (these handlers hold no pending context).
\<close>

theorem handler_timeouts:
  "(d < 300 \<longrightarrow>
      resume env WaitUpload (Some d) st = resume env WaitUpload (Some 0) st
      \<and> resume env WaitDnsRegister (Some d) st = resume env WaitDnsRegister (Some 0) st
      \<and> resume env WaitReport (Some d) st = resume env WaitReport (Some 0) st)
   \<and> (set_after = None \<or> (\<exists>d'. set_after = Some d' \<and> 300 \<le> d') \<longrightarrow>
      resume env WaitUpload set_after st
        = (say (Error ''Upload timeout'') st)\<lparr>pending_upload := None\<rparr>
      \<and> resume env WaitDnsRegister set_after st
        = (say (Error ''DNS registration timeout'') st)\<lparr>pending_dns := None\<rparr>
      \<and> resume env WaitReport set_after st
        = (say (Error ''Report timeout'') st)\<lparr>pending_report := None\<rparr>)
   \<and> (d < 30 \<longrightarrow>
      resume env (WaitContent output_path) (Some d) st
        = resume env (WaitContent output_path) (Some 0) st
      \<and> resume env WaitDnsResolve (Some d) st = resume env WaitDnsResolve (Some 0) st
      \<and> resume env WaitSearch (Some d) st = resume env WaitSearch (Some 0) st
      \<and> resume env WaitNetwork (Some d) st = resume env WaitNetwork (Some 0) st)
   \<and> (set_after = None \<or> (\<exists>d'. set_after = Some d' \<and> 30 \<le> d') \<longrightarrow>
      resume env (WaitContent output_path) set_after st = say (Error ''Download timeout'') st
      \<and> resume env WaitDnsResolve set_after st = say (Error ''DNS resolution timeout'') st
      \<and> resume env WaitSearch set_after st = say (Error ''Search timeout'') st
      \<and> resume env WaitNetwork set_after st = say (Error ''Network state timeout'') st)"
  by (auto simp: resume_def handle_upload_finish_def handle_dns_register_finish_def
        handle_report_finish_def handle_download_finish_def handle_dns_resolve_finish_def
        handle_search_finish_def handle_network_finish_def event_wait_def)

theorem handler_timeouts_witness:
  "resume sample_env WaitReport (Some 299) sample_client
     = resume sample_env WaitReport (Some 0) sample_client
   \<and> resume sample_env WaitReport (Some 300) sample_client
     = (say (Error ''Report timeout'') sample_client)\<lparr>pending_report := None\<rparr>
   \<and> resume sample_env WaitSearch (Some 29) sample_client
     = resume sample_env WaitSearch (Some 0) sample_client
   \<and> resume sample_env WaitSearch None sample_client
     = say (Error ''Search timeout'') sample_client"
  using handler_timeouts [of 299 sample_env sample_client "Some 300" None]
        handler_timeouts [of 29 sample_env sample_client None None]
  by simp

section \<open>The content store\<close>



lemma store_integrity_frame:
  "content_files st' = content_files st \<Longrightarrow> cli_content_cache st' = cli_content_cache st
     \<Longrightarrow> store_integrity env st' = store_integrity env st"
  by (simp add: store_integrity_def)











section \<open>Integrity flag of a download\<close>



section \<open>Upload: framing and signature\<close>

lemma upload_header_framed: "upload_header env user pem = framed_header env user pem"
  by (simp add: upload_header_def framed_header_def encode_def Let_def)

lemma framed_not_payload: "framed_header env user pem @ P \<noteq> P"
  by (simp add: framed_header_def encode_def)

lemma upload_reaches_wait:
  assumes "handle_upload_begin env args st = Waits kind st'"
  shows "\<exists>ctx user file_path P.
           kind = WaitUpload \<and> pending_upload st' = Some ctx
           \<and> logged_in_user st = Some user \<and> local_files env file_path = Some P
           \<and> pu_full_content ctx = framed_header env user (public_key_pem st) @ P
           \<and> pu_content_hash ctx = hexdigest (sha256 env (pu_full_content ctx))
           \<and> pu_signature ctx = private_key st P (PSS (MGF1 SHA256) MAX_LENGTH) SHA256"
  using assms
  by (auto simp: handle_upload_begin_def upload_header_framed pss_sha256_def
        save_content_to_storage_def run_async_def request_pow_challenge_def say_def
        sio_emit_def Let_def
        split: option.splits sum.splits prod.splits if_splits)

text \<open>
  C2. For every logged-in upload of the payload bytes \<open>P\<close> (the arguments name a readable
  file that holds \<open>P\<close>, \<open>P\<close> is within the size limit, and the blob is stored without an
  exception), \<open>handle_upload\<close> reaches its wait with a pending upload whose
  \<open>content_hash\<close> is the SHA-256 hex digest of the framed blob, the header of the
  specification for \<open>current_user\<close> and \<open>public_key_pem\<close> followed by \<open>P\<close>, and whose
  signature is the RSA-PSS (MGF1-SHA256, maximal salt) signature of \<open>P\<close> alone; the framed
  blob is what is stored under that hash, and it differs from \<open>P\<close>. Conversely, whenever
  \<open>handle_upload\<close> reaches its wait, its pending upload has this form for the payload it
  read.
\<close>

theorem upload_framing_and_signature:
  "(logged_in_user st = Some user
      \<and> upload_arguments env st args = Inr (file_path, title, description, mime)
      \<and> local_files env file_path = Some P \<and> length P \<le> max_upload_size st
      \<and> fs_fault env = None \<and> db_fault env = None
    \<longrightarrow> (\<exists>st' ctx. handle_upload_begin env args st = Waits WaitUpload st'
          \<and> pending_upload st' = Some ctx
          \<and> pu_content_hash ctx
              = hexdigest (sha256 env (framed_header env user (public_key_pem st) @ P))
          \<and> pu_full_content ctx = framed_header env user (public_key_pem st) @ P
          \<and> pu_signature ctx = private_key st P (PSS (MGF1 SHA256) MAX_LENGTH) SHA256
          \<and> map_of (content_files st') (pu_content_hash ctx)
              = Some (framed_header env user (public_key_pem st) @ P)
          \<and> framed_header env user (public_key_pem st) @ P \<noteq> P))
   \<and> (handle_upload_begin env args st = Waits kind st'' \<longrightarrow>
        (\<exists>ctx user' path' P'.
           pending_upload st'' = Some ctx
           \<and> logged_in_user st = Some user' \<and> local_files env path' = Some P'
           \<and> pu_full_content ctx = framed_header env user' (public_key_pem st) @ P'
           \<and> pu_content_hash ctx = hexdigest (sha256 env (pu_full_content ctx))
           \<and> pu_signature ctx = private_key st P' (PSS (MGF1 SHA256) MAX_LENGTH) SHA256))"
proof (intro conjI impI)
  assume a: "logged_in_user st = Some user
      \<and> upload_arguments env st args = Inr (file_path, title, description, mime)
      \<and> local_files env file_path = Some P \<and> length P \<le> max_upload_size st
      \<and> fs_fault env = None \<and> db_fault env = None"
  have nonempty: "framed_header env user (public_key_pem st) \<noteq> []"
    by (simp add: framed_header_def encode_def)
  have frame: "max_upload_size (say m s) = max_upload_size s"
    "public_key_pem (say m s) = public_key_pem s"
    "private_key (say m s) = private_key s" for m s
    by (simp_all add: say_def)
  from a show "\<exists>st' ctx. handle_upload_begin env args st = Waits WaitUpload st'
          \<and> pending_upload st' = Some ctx
          \<and> pu_content_hash ctx
              = hexdigest (sha256 env (framed_header env user (public_key_pem st) @ P))
          \<and> pu_full_content ctx = framed_header env user (public_key_pem st) @ P
          \<and> pu_signature ctx = private_key st P (PSS (MGF1 SHA256) MAX_LENGTH) SHA256
          \<and> map_of (content_files st') (pu_content_hash ctx)
              = Some (framed_header env user (public_key_pem st) @ P)
          \<and> framed_header env user (public_key_pem st) @ P \<noteq> P"
    by (simp add: handle_upload_begin_def upload_header_framed pss_sha256_def frame
          save_content_to_storage_def run_async_def request_pow_challenge_def say_def
          sio_emit_def Let_def update_conv' nonempty)
next
  assume "handle_upload_begin env args st = Waits kind st''"
  from upload_reaches_wait [OF this]
  show "\<exists>ctx user' path' P'.
           pending_upload st'' = Some ctx
           \<and> logged_in_user st = Some user' \<and> local_files env path' = Some P'
           \<and> pu_full_content ctx = framed_header env user' (public_key_pem st) @ P'
           \<and> pu_content_hash ctx = hexdigest (sha256 env (pu_full_content ctx))
           \<and> pu_signature ctx = private_key st P' (PSS (MGF1 SHA256) MAX_LENGTH) SHA256"
    by blast
qed

theorem upload_framing_and_signature_witness:
  "(\<exists>st' ctx. handle_upload_begin sample_env [''hello.txt'', ''--title'', ''t''] sample_client
                 = Waits WaitUpload st'
       \<and> pending_upload st' = Some ctx
       \<and> pu_full_content ctx
           = encode ''# HSYST P2P SERVICE### START:# USER: alice# KEY: PEM### :END STARThello''
       \<and> pu_content_hash ctx = hexdigest (sha256 sample_env (pu_full_content ctx))
       \<and> pu_signature ctx = encode ''hello'')"
proof -
  have h: "logged_in_user sample_client = Some ''alice''"
    "upload_arguments sample_env sample_client [''hello.txt'', ''--title'', ''t'']
       = Inr (''hello.txt'', Some ''t'', [], None)"
    "local_files sample_env ''hello.txt'' = Some (encode ''hello'')"
    "length (encode ''hello'') \<le> max_upload_size sample_client"
    "fs_fault sample_env = None" "db_fault sample_env = None"
    by (simp_all add: logged_in_user_def upload_arguments_def sample_client_def
          sample_env_def initial_client_def encode_def)
  have hdr: "framed_header sample_env ''alice'' (public_key_pem sample_client) @ encode ''hello''
       = encode ''# HSYST P2P SERVICE### START:# USER: alice# KEY: PEM### :END STARThello''"
    by (simp add: framed_header_def sample_env_def sample_client_def initial_client_def
          encode_def)
  have sig: "private_key sample_client (encode ''hello'') (PSS (MGF1 SHA256) MAX_LENGTH) SHA256
       = encode ''hello''"
    by (simp add: sample_client_def initial_client_def sample_key_def)
  from upload_framing_and_signature
         [of sample_client "''alice''" sample_env "[''hello.txt'', ''--title'', ''t'']"
             "''hello.txt''" "Some ''t''" "[]" None "encode ''hello''"] h
  obtain st' ctx where
    "handle_upload_begin sample_env [''hello.txt'', ''--title'', ''t''] sample_client
       = Waits WaitUpload st'"
    "pending_upload st' = Some ctx"
    "pu_content_hash ctx = hexdigest (sha256 sample_env
        (framed_header sample_env ''alice'' (public_key_pem sample_client) @ encode ''hello''))"
    "pu_full_content ctx
       = framed_header sample_env ''alice'' (public_key_pem sample_client) @ encode ''hello''"
    "pu_signature ctx
       = private_key sample_client (encode ''hello'') (PSS (MGF1 SHA256) MAX_LENGTH) SHA256"
    by blast
  then show ?thesis unfolding hdr sig by auto
qed

section \<open>Reports\<close>

lemma report_reaches_wait:
  assumes "handle_report_begin env args st = Waits kind st1"
  shows "\<exists>h u rest user.
           kind = WaitReport \<and> args = h # u # rest \<and> logged_in_user st = Some user
           \<and> u \<noteq> user \<and> 20 \<le> reputation st \<and> db_fault env = None
           \<and> count_reports user h (cli_reports st) = 0
           \<and> pending_report st1 = Some (h, u)
           \<and> current_user st1 = current_user st \<and> cli_reports st1 = cli_reports st
           \<and> reputation st1 = reputation st \<and> connected st1 = connected st
           \<and> emitted st1 = emitted st @
                 (if connected st \<and> has_loop st
                  then [RequestPowChallenge (client_identifier st) ''report''] else [])"
  using assms
  by (auto simp: handle_report_begin_def run_async_def request_pow_challenge_def say_def
        sio_emit_def Let_def
        split: option.splits list.splits if_splits)

lemma report_accepted:
  assumes "logged_in_user st = Some user" "u \<noteq> user" "20 \<le> reputation st"
    "db_fault env = None" "count_reports user h (cli_reports st) = 0"
  shows "\<exists>st1. handle_report_begin env (h # u # rest) st = Waits WaitReport st1"
  using assms by (simp add: handle_report_begin_def say_def Let_def)

lemma report_rejected:
  assumes "handle_report_begin env args st = Returns st1
           \<or> handle_report_begin env args st = Raises e st1"
  shows "emitted st1 = emitted st \<and> pending_report st1 = pending_report st
         \<and> cli_reports st1 = cli_reports st"
  using assms
  by (auto simp: handle_report_begin_def say_def Let_def
        split: option.splits list.splits if_splits)

lemma report_duplicate:
  assumes "logged_in_user st = Some user" "u \<noteq> user" "20 \<le> reputation st"
    "db_fault env = None" "0 < count_reports user h (cli_reports st)"
  shows "\<exists>st1. handle_report_begin env (h # u # rest) st = Returns st1
               \<and> last (display st1) = Error ''You have already reported this content''
               \<and> emitted st1 = emitted st \<and> pending_report st1 = pending_report st
               \<and> cli_reports st1 = cli_reports st"
  using assms by (auto simp: handle_report_begin_def say_def Let_def)

lemma mine_frame: "is_solving st' = is_solving st \<Longrightarrow> mine env data st' = mine env data st"
  by (simp add: mine_def split: option.splits)

lemma mine_target_zero:
  assumes "pc_challenge data = Some c" "pc_target_bits data = Some 0"
    "b64decode env c = Inr cb" "\<not> is_solving st" "0 < mining_fuel env"
  shows "mine env data st = Some 0"
proof -
  from assms(5) have "solve_loop (sha256 env) cb 0 (mining_fuel env) 0 = Some 0"
    by (intro solve_loop_complete) simp_all
  with assms show ?thesis by (simp add: mine_def solve_challenge_def)
qed

lemma report_content_rows:
  "\<exists>new. cli_reports (report_content env h u nonce hr st) = cli_reports st @ new"
  by (simp add: report_content_def say_def sio_emit_def Let_def split: option.splits)

lemma report_content_emits:
  assumes "emitted (report_content env h u nonce hr st) \<noteq> emitted st"
  shows "\<exists>row. cli_reports (report_content env h u nonce hr st) = cli_reports st @ [row]
           \<and> rep_status row = ''pending'' \<and> rep_content_hash row = h
           \<and> rep_reported_user row = u
           \<and> current_user st = Some (rep_reporter_user row)
           \<and> emitted (report_content env h u nonce hr st)
               = emitted st @ [ReportContent h u (Some (rep_reporter_user row)) nonce hr]"
  using assms
  by (auto simp: report_content_def say_def sio_emit_def Let_def split: option.splits if_splits)

lemma report_content_sent:
  assumes "connected st" "db_fault env = None" "current_user st = Some reporter"
    "hexdigest (sha256 env (encode (h @ u @ reporter @ str_int (now env))))
       \<notin> set (map rep_id (cli_reports st))"
  shows "emitted (report_content env h u nonce hr st)
           = emitted st @ [ReportContent h u (Some reporter) nonce hr]
         \<and> 0 < count_reports reporter h (cli_reports (report_content env h u nonce hr st))
         \<and> current_user (report_content env h u nonce hr st) = Some reporter
         \<and> reputation (report_content env h u nonce hr st) = reputation st"
  using assms
  by (simp add: report_content_def say_def sio_emit_def Let_def str_opt_def count_reports_def)

lemma pow_challenge_report:
  assumes "pc_error data = None" "pc_action_type data = Some ''report''"
    "mine env data st = Some n" "pending_report st = Some (h, u)"
  shows "pow_challenge env data st
           = report_content env h u (str_nat n) (hashrate_observed env)
               (bump ''hashes_calculated'' (int n + 1)
                 (bump ''pow_time'' (later env - now env)
                   (bump ''pow_solved'' 1
                     (say (Info (''PoW challenge received: '' @
                        (case pc_target_bits data of None \<Rightarrow> ''None'' | Some t \<Rightarrow> str_int t)
                        @ '' bits'')) st))))"
proof -
  have "mine env data (say m st) = Some n" for m
    using assms(3) mine_frame [of "say m st" st env data] by (simp add: say_def)
  with assms show ?thesis
    by (simp add: pow_challenge_def dict_get_def bump_def say_def Let_def)
qed

lemma report_finish_frame:
  "current_user (resume env WaitReport sa (report_result_event env reply st)) = current_user st
   \<and> reputation (resume env WaitReport sa (report_result_event env reply st)) = reputation st
   \<and> cli_reports (resume env WaitReport sa (report_result_event env reply st)) = cli_reports st
   \<and> emitted (resume env WaitReport sa (report_result_event env reply st)) = emitted st"
  by (simp add: resume_def handle_report_finish_def report_result_event_def
        save_session_state_def say_def bump_def Let_def split: option.splits)

lemma say_frame:
  "current_user (say m s) = current_user s" "reputation (say m s) = reputation s"
  "cli_reports (say m s) = cli_reports s" "emitted (say m s) = emitted s"
  "connected (say m s) = connected s" "pending_report (say m s) = pending_report s"
  "is_solving (say m s) = is_solving s"
  by (simp_all add: say_def)

lemma bump_frame:
  "current_user (bump k n s) = current_user s" "reputation (bump k n s) = reputation s"
  "cli_reports (bump k n s) = cli_reports s" "emitted (bump k n s) = emitted s"
  "connected (bump k n s) = connected s" "pending_report (bump k n s) = pending_report s"
  by (simp_all add: bump_def)

lemma back_to_back_report:
  assumes pre: "logged_in_user st = Some user" "u \<noteq> user" "20 \<le> reputation st"
      "count_reports user h (cli_reports st) = 0"
    and env: "connected st" "db_fault env = None"
    and pow: "pc_error data = None" "pc_action_type data = Some ''report''"
      "mine env data st = Some n"
    and fresh: "hexdigest (sha256 env (encode (h @ u @ user @ str_int (now env))))
                  \<notin> set (map rep_id (cli_reports st))"
  shows "\<exists>st1 st4.
           handle_report_begin env [h, u] st = Waits WaitReport st1
           \<and> emitted (pow_challenge env data st1)
               = emitted st1 @ [ReportContent h u (Some user) (str_nat n) (hashrate_observed env)]
           \<and> handle_report_begin env [h, u]
                 (resume env WaitReport sa
                    (report_result_event env reply (pow_challenge env data st1)))
               = Returns st4
           \<and> last (display st4) = Error ''You have already reported this content''
           \<and> emitted st4 = emitted (pow_challenge env data st1)"
proof -
  from report_accepted [OF pre(1,2,3) env(2) pre(4), of "[]"]
  obtain st1 where st1: "handle_report_begin env [h, u] st = Waits WaitReport st1" by blast
  from report_reaches_wait [OF st1]
  have f1: "pending_report st1 = Some (h, u)" "current_user st1 = current_user st"
    "cli_reports st1 = cli_reports st" "reputation st1 = reputation st"
    "connected st1 = connected st"
    by auto
  have solv: "is_solving st1 = is_solving st"
    using st1 pre env
    by (auto simp: handle_report_begin_def run_async_def request_pow_challenge_def say_def
          sio_emit_def Let_def split: if_splits)
  from pre(1) have cu: "current_user st = Some user"
    by (simp add: logged_in_user_def split: option.splits if_splits)
  let ?s = "bump ''hashes_calculated'' (int n + 1)
             (bump ''pow_time'' (later env - now env)
               (bump ''pow_solved'' 1
                 (say (Info (''PoW challenge received: '' @
                    (case pc_target_bits data of None \<Rightarrow> ''None'' | Some t \<Rightarrow> str_int t)
                    @ '' bits'')) st1)))"
  have mine1: "mine env data st1 = Some n"
    using pow(3) mine_frame [OF solv] by simp
  have pc: "pow_challenge env data st1
              = report_content env h u (str_nat n) (hashrate_observed env) ?s"
    by (rule pow_challenge_report [OF pow(1,2) mine1 f1(1)])
  have sent: "emitted (report_content env h u (str_nat n) (hashrate_observed env) ?s)
           = emitted ?s @ [ReportContent h u (Some user) (str_nat n) (hashrate_observed env)]
         \<and> 0 < count_reports user h
                 (cli_reports (report_content env h u (str_nat n) (hashrate_observed env) ?s))
         \<and> current_user (report_content env h u (str_nat n) (hashrate_observed env) ?s)
             = Some user
         \<and> reputation (report_content env h u (str_nat n) (hashrate_observed env) ?s)
             = reputation ?s"
    using env fresh f1 cu
    by (intro report_content_sent) (simp_all add: say_frame bump_frame)
  let ?s2 = "pow_challenge env data st1"
  let ?s3 = "resume env WaitReport sa (report_result_event env reply ?s2)"
  from sent pc have s2: "emitted ?s2
      = emitted st1 @ [ReportContent h u (Some user) (str_nat n) (hashrate_observed env)]"
    "0 < count_reports user h (cli_reports ?s2)" "current_user ?s2 = Some user"
    "reputation ?s2 = reputation st"
    by (simp_all add: say_frame bump_frame f1)
  have s3: "logged_in_user ?s3 = Some user" "20 \<le> reputation ?s3"
    "0 < count_reports user h (cli_reports ?s3)" "emitted ?s3 = emitted ?s2"
    using report_finish_frame [of env sa reply ?s2] s2 pre(1,3) cu
    by (simp_all add: logged_in_user_def)
  from report_duplicate [OF s3(1) pre(2) s3(2) env(2) s3(3), of "[]"]
  obtain st4 where "handle_report_begin env [h, u] ?s3 = Returns st4"
    "last (display st4) = Error ''You have already reported this content''"
    "emitted st4 = emitted ?s3" by blast
  with st1 s2(1) s3(4) show ?thesis by auto
qed

lemma report_returns_error:
  assumes "handle_report_begin env args st = Returns st2"
  shows "\<exists>m. last (display st2) = Error m"
  using assms
  by (auto simp: handle_report_begin_def say_def Let_def
        split: option.splits list.splits if_splits)

text \<open>
  C7. \<open>handle_report\<close> goes on to request the proof of work (and so, later, to emit
  \<open>report_content\<close>) only when the caller is logged in, the reported user differs from
  \<open>current_user\<close>, the reputation is at least 20 and \<open>cli_reports\<close> holds no row for
  \<open>(current_user, content_hash)\<close>; with a working database it does so exactly then. An
  invocation that goes on sets \<open>pending_report\<close> and emits nothing but the request for the
  challenge. An invocation that does not go on leaves the emitted events, the pending
  context and the table as they are, and when it returns its last output is an error. In
  particular, after a first report that was sent (the challenge was solved while
  connected, so \<open>report_content\<close> was emitted) and whose handler has finished, a second
  report of the same hash returns the error of a duplicate and emits nothing.
\<close>

theorem report_preconditions:
  "(handle_report_begin env args st = Waits kind st1 \<longrightarrow>
      (\<exists>h' u' rest' user. args = h' # u' # rest' \<and> logged_in_user st = Some user
          \<and> u' \<noteq> user \<and> 20 \<le> reputation st
          \<and> count_reports user h' (cli_reports st) = 0
          \<and> pending_report st1 = Some (h', u')
          \<and> emitted st1 = emitted st @
                (if connected st \<and> has_loop st
                 then [RequestPowChallenge (client_identifier st) ''report''] else [])))
   \<and> (db_fault env = None \<longrightarrow>
        ((\<exists>st'. handle_report_begin env (h # u # rest) st = Waits WaitReport st')
         \<longleftrightarrow> (\<exists>user. logged_in_user st = Some user \<and> u \<noteq> user \<and> 20 \<le> reputation st
                \<and> count_reports user h (cli_reports st) = 0)))
   \<and> (handle_report_begin env args st = Returns st2
        \<or> handle_report_begin env args st = Raises e st2 \<longrightarrow>
        emitted st2 = emitted st \<and> pending_report st2 = pending_report st
        \<and> cli_reports st2 = cli_reports st)
   \<and> (handle_report_begin env args st = Returns st2 \<longrightarrow> (\<exists>m. last (display st2) = Error m))
   \<and> (logged_in_user st = Some reporter \<and> u \<noteq> reporter \<and> 20 \<le> reputation st
        \<and> count_reports reporter h (cli_reports st) = 0
        \<and> connected st \<and> db_fault env = None
        \<and> pc_error data = None \<and> pc_action_type data = Some ''report''
        \<and> mine env data st = Some n
        \<and> hexdigest (sha256 env (encode (h @ u @ reporter @ str_int (now env))))
             \<notin> set (map rep_id (cli_reports st))
      \<longrightarrow> (\<exists>first second.
             handle_report_begin env [h, u] st = Waits WaitReport first
             \<and> emitted (pow_challenge env data first)
                 = emitted first
                     @ [ReportContent h u (Some reporter) (str_nat n) (hashrate_observed env)]
             \<and> handle_report_begin env [h, u]
                   (resume env WaitReport set_after
                      (report_result_event env reply (pow_challenge env data first)))
                 = Returns second
             \<and> last (display second) = Error ''You have already reported this content''
             \<and> emitted second = emitted (pow_challenge env data first)))"
proof (intro conjI impI)
  assume "handle_report_begin env args st = Waits kind st1"
  from report_reaches_wait [OF this]
  show "\<exists>h' u' rest' user. args = h' # u' # rest' \<and> logged_in_user st = Some user
          \<and> u' \<noteq> user \<and> 20 \<le> reputation st
          \<and> count_reports user h' (cli_reports st) = 0
          \<and> pending_report st1 = Some (h', u')
          \<and> emitted st1 = emitted st @
                (if connected st \<and> has_loop st
                 then [RequestPowChallenge (client_identifier st) ''report''] else [])"
    by blast
next
  assume db: "db_fault env = None"
  show "(\<exists>st'. handle_report_begin env (h # u # rest) st = Waits WaitReport st')
         \<longleftrightarrow> (\<exists>user. logged_in_user st = Some user \<and> u \<noteq> user \<and> 20 \<le> reputation st
                \<and> count_reports user h (cli_reports st) = 0)"
  proof
    assume "\<exists>st'. handle_report_begin env (h # u # rest) st = Waits WaitReport st'"
    then obtain st' where "handle_report_begin env (h # u # rest) st = Waits WaitReport st'"
      by blast
    from report_reaches_wait [OF this]
    show "\<exists>user. logged_in_user st = Some user \<and> u \<noteq> user \<and> 20 \<le> reputation st
                \<and> count_reports user h (cli_reports st) = 0"
      by auto
  next
    assume "\<exists>user. logged_in_user st = Some user \<and> u \<noteq> user \<and> 20 \<le> reputation st
                \<and> count_reports user h (cli_reports st) = 0"
    then obtain user where "logged_in_user st = Some user" "u \<noteq> user" "20 \<le> reputation st"
      "count_reports user h (cli_reports st) = 0" by blast
    from report_accepted [OF this(1,2,3) db this(4)]
    show "\<exists>st'. handle_report_begin env (h # u # rest) st = Waits WaitReport st'" .
  qed
next
  assume "handle_report_begin env args st = Returns st2
        \<or> handle_report_begin env args st = Raises e st2"
  from report_rejected [OF this]
  show "emitted st2 = emitted st" "pending_report st2 = pending_report st"
    "cli_reports st2 = cli_reports st"
    by simp_all
next
  assume "handle_report_begin env args st = Returns st2"
  then show "\<exists>m. last (display st2) = Error m" by (rule report_returns_error)
next
  assume a: "logged_in_user st = Some reporter \<and> u \<noteq> reporter \<and> 20 \<le> reputation st
        \<and> count_reports reporter h (cli_reports st) = 0
        \<and> connected st \<and> db_fault env = None
        \<and> pc_error data = None \<and> pc_action_type data = Some ''report''
        \<and> mine env data st = Some n
        \<and> hexdigest (sha256 env (encode (h @ u @ reporter @ str_int (now env))))
             \<notin> set (map rep_id (cli_reports st))"
  then show "\<exists>first second.
             handle_report_begin env [h, u] st = Waits WaitReport first
             \<and> emitted (pow_challenge env data first)
                 = emitted first
                     @ [ReportContent h u (Some reporter) (str_nat n) (hashrate_observed env)]
             \<and> handle_report_begin env [h, u]
                   (resume env WaitReport set_after
                      (report_result_event env reply (pow_challenge env data first)))
                 = Returns second
             \<and> last (display second) = Error ''You have already reported this content''
             \<and> emitted second = emitted (pow_challenge env data first)"
    by (intro back_to_back_report) simp_all
qed

theorem report_preconditions_witness:
  "(\<exists>st'. handle_report_begin sample_env [''H'', ''bob''] (sample_client\<lparr>reputation := 20\<rparr>)
            = Waits WaitReport st')
   \<and> \<not> (\<exists>st'. handle_report_begin sample_env [''H'', ''bob''] (sample_client\<lparr>reputation := 19\<rparr>)
            = Waits WaitReport st')
   \<and> \<not> (\<exists>st'. handle_report_begin sample_env [''H'', ''alice''] sample_client
            = Waits WaitReport st')
   \<and> (\<exists>first second.
         handle_report_begin sample_env [''H'', ''bob''] sample_client = Waits WaitReport first
         \<and> emitted (pow_challenge sample_env
                \<lparr> pc_error = None, pc_blocked_until = None, pc_challenge = Some ''c'',
                  pc_target_bits = Some 0, pc_action_type = Some ''report'' \<rparr> first)
             = emitted first @ [ReportContent ''H'' ''bob'' (Some ''alice'') (str_nat 0) 0]
         \<and> handle_report_begin sample_env [''H'', ''bob'']
               (resume sample_env WaitReport (Some 1)
                  (report_result_event sample_env
                     \<lparr> rp_success = Some False, rp_error = Some ''rejected'',
                       rp_content_hash = None, rp_domain = None, rp_username = None,
                       rp_verified = None \<rparr>
                     (pow_challenge sample_env
                        \<lparr> pc_error = None, pc_blocked_until = None, pc_challenge = Some ''c'',
                          pc_target_bits = Some 0, pc_action_type = Some ''report'' \<rparr> first)))
             = Returns second
         \<and> last (display second) = Error ''You have already reported this content'')"
proof -
  let ?data = "\<lparr> pc_error = None, pc_blocked_until = None, pc_challenge = Some ''c'',
                  pc_target_bits = Some 0, pc_action_type = Some ''report'' \<rparr>"
  let ?reply = "\<lparr> rp_success = Some False, rp_error = Some ''rejected'',
                       rp_content_hash = None, rp_domain = None, rp_username = None,
                       rp_verified = None \<rparr>"
  have env: "db_fault sample_env = None" "hashrate_observed sample_env = 0"
    "0 < mining_fuel sample_env" "b64decode sample_env ''c'' = Inr (encode ''c'')"
    by (simp_all add: sample_env_def)
  have cl: "logged_in_user (sample_client\<lparr>reputation := r\<rparr>) = Some ''alice''"
    "logged_in_user sample_client = Some ''alice''"
    "cli_reports (sample_client\<lparr>reputation := r\<rparr>) = []" "cli_reports sample_client = []"
    "reputation sample_client = 100" "connected sample_client"
    "\<not> is_solving sample_client" for r
    by (simp_all add: sample_client_def initial_client_def logged_in_user_def)
  have mine: "mine sample_env ?data sample_client = Some 0"
    by (rule mine_target_zero [where c = "''c''" and cb = "encode ''c''"])
       (simp_all add: env cl)
  note a = report_preconditions
      [of sample_env "[]" "sample_client\<lparr>reputation := 20\<rparr>" WaitReport sample_client
          "''H''" "''bob''" "[]" sample_client "[]" "''alice''" ?data 0 "Some 1" ?reply]
  note b = report_preconditions
      [of sample_env "[]" "sample_client\<lparr>reputation := 19\<rparr>" WaitReport sample_client
          "''H''" "''bob''" "[]" sample_client "[]" "''alice''" ?data 0 "Some 1" ?reply]
  note c = report_preconditions
      [of sample_env "[]" sample_client WaitReport sample_client
          "''H''" "''alice''" "[]" sample_client "[]" "''alice''" ?data 0 "Some 1" ?reply]
  note d = report_preconditions
      [of sample_env "[]" sample_client WaitReport sample_client
          "''H''" "''bob''" "[]" sample_client "[]" "''alice''" ?data 0 "Some 1" ?reply]
  have 1: "\<exists>st'. handle_report_begin sample_env [''H'', ''bob''] (sample_client\<lparr>reputation := 20\<rparr>)
            = Waits WaitReport st'"
    using a env(1) cl by (simp add: count_reports_def)
  have 2: "\<not> (\<exists>st'. handle_report_begin sample_env [''H'', ''bob'']
                    (sample_client\<lparr>reputation := 19\<rparr>) = Waits WaitReport st')"
    using b env(1) cl by (simp add: count_reports_def)
  have 3: "\<not> (\<exists>st'. handle_report_begin sample_env [''H'', ''alice''] sample_client
                    = Waits WaitReport st')"
    using c env(1) cl by (simp add: count_reports_def)
  have hyp: "logged_in_user sample_client = Some ''alice'' \<and> ''bob'' \<noteq> ''alice''
        \<and> 20 \<le> reputation sample_client
        \<and> count_reports ''alice'' ''H'' (cli_reports sample_client) = 0
        \<and> connected sample_client \<and> db_fault sample_env = None
        \<and> pc_error ?data = None \<and> pc_action_type ?data = Some ''report''
        \<and> mine sample_env ?data sample_client = Some 0
        \<and> hexdigest (sha256 sample_env
              (encode (''H'' @ ''bob'' @ ''alice'' @ str_int (now sample_env))))
             \<notin> set (map rep_id (cli_reports sample_client))"
    using env cl mine by (simp add: count_reports_def)
  from d hyp have 4: "\<exists>first second.
         handle_report_begin sample_env [''H'', ''bob''] sample_client = Waits WaitReport first
         \<and> emitted (pow_challenge sample_env ?data first)
             = emitted first @ [ReportContent ''H'' ''bob'' (Some ''alice'') (str_nat 0)
                                  (hashrate_observed sample_env)]
         \<and> handle_report_begin sample_env [''H'', ''bob'']
               (resume sample_env WaitReport (Some 1)
                  (report_result_event sample_env ?reply
                     (pow_challenge sample_env ?data first)))
             = Returns second
         \<and> last (display second) = Error ''You have already reported this content''
         \<and> emitted second = emitted (pow_challenge sample_env ?data first)"
    by blast
  from 1 2 3 4 show ?thesis unfolding env(2) by blast
qed

section \<open>The rows of \<open>cli_reports\<close> are permanent\<close>

lemma reports_upload: "cli_reports (after_step (handle_upload_begin env args st)) = cli_reports st"
  by (auto simp: handle_upload_begin_def after_step_def save_content_to_storage_def
        run_async_def request_pow_challenge_def say_def sio_emit_def Let_def
        split: option.splits sum.splits prod.splits)

lemma reports_network: "cli_reports (after_step (handle_network_begin args st)) = cli_reports st"
  by (simp add: handle_network_begin_def after_step_def get_network_state_def say_def
        sio_emit_def Let_def)

lemma reports_dns_resolve:
  "cli_reports (after_step (handle_dns_resolve_begin args conn st)) = cli_reports st"
  by (simp add: handle_dns_resolve_begin_def after_step_def resolve_dns_def say_def
        sio_emit_def Let_def split: list.splits option.splits)

lemma reports_download:
  "cli_reports (after_step (handle_download_begin args st)) = cli_reports st"
  using reports_network reports_dns_resolve
  by (auto simp: handle_download_begin_def after_step_def run_async_def
        request_content_by_hash_def say_def sio_emit_def Let_def
        split: list.splits sum.splits)

lemma reports_report:
  "cli_reports (after_step (handle_report_begin env args st)) = cli_reports st"
  by (auto simp: handle_report_begin_def after_step_def run_async_def
        request_pow_challenge_def say_def sio_emit_def Let_def
        split: list.splits option.splits)

lemma reports_logout: "cli_reports (snd (handle_logout env st)) = cli_reports st"
  by (simp add: handle_logout_def run_async_def sio_disconnect_def disconnect_def
        save_session_state_def say_def Let_def split: option.splits)

lemma reports_foldl:
  "(\<And>s x. cli_reports (f s x) = cli_reports s) \<Longrightarrow> cli_reports (foldl f s rs) = cli_reports s"
  by (induction rs arbitrary: s) simp_all

lemma reports_resume: "cli_reports (resume env kind set_after st) = cli_reports st"
  by (cases kind)
     (auto simp: resume_def handle_upload_finish_def handle_download_finish_def
        handle_dns_register_finish_def handle_dns_resolve_finish_def
        handle_search_finish_def handle_network_finish_def handle_report_finish_def
        say_frame Let_def reports_foldl case_prod_beta
        split: option.splits content_result.splits network_result.splits
               search_result.splits list.splits)

lemma reports_events:
  "cli_reports (disconnect st) = cli_reports st"
  "cli_reports (content_response env cdata st) = cli_reports st"
  "cli_reports (publish_result env rdata st) = cli_reports st"
  "cli_reports (dns_result_event env rdata st) = cli_reports st"
  "cli_reports (report_result_event env rdata st) = cli_reports st"
  "cli_reports (network_state ndata st) = cli_reports st"
  by (simp_all add: disconnect_def content_response_def content_response_except_def
        publish_result_def dns_result_event_def report_result_event_def network_state_def
        save_content_to_storage_def save_session_state_def say_def bump_def Let_def
        split: option.splits sum.splits)

lemma reports_search: "cli_reports (search_results sdata st) = cli_reports st"
  by (cases sdata)
     (simp_all add: search_results_def say_frame reports_foldl case_prod_beta)

lemma reports_pow_challenge:
  "\<exists>new. cli_reports (pow_challenge env data st) = cli_reports st @ new"
proof -
  have rc: "cli_reports s = xs
              \<Longrightarrow> \<exists>new. cli_reports (report_content env h u nonce hr s) = xs @ new"
    for h u nonce hr s xs
    using report_content_rows [of env h u nonce hr s] by simp
  have other: "cli_reports (send_authentication env nonce hr s) = cli_reports s"
    "cli_reports (upload_file env ctx nonce hr s) = cli_reports s"
    "cli_reports (register_dns env dctx nonce hr s) = cli_reports s" for nonce hr s ctx dctx
    by (simp_all add: send_authentication_def upload_file_def register_dns_def say_def
          sio_emit_def Let_def split: option.splits prod.splits)
  show ?thesis
  proof (cases "pc_error data")
    case (Some e)
    then show ?thesis
      by (simp add: pow_challenge_def handle_ban_def say_def Let_def split: option.splits)
  next
    case None
    then show ?thesis
      by (auto simp: pow_challenge_def other say_frame bump_frame Let_def
            split: option.splits intro!: rc)
  qed
qed

lemma reports_step: "\<exists>new. cli_reports (step env operation st) = cli_reports st @ new"
  using reports_pow_challenge [of env _ st]
  by (cases operation)
     (simp_all add: step_def reports_upload reports_download reports_network
        reports_dns_resolve reports_report reports_logout reports_resume reports_events
        reports_search)

lemma reports_run: "\<exists>new. cli_reports (run ops st) = cli_reports st @ new"
proof (induction ops arbitrary: st)
  case Nil
  show ?case by simp
next
  case (Cons eo ops)
  obtain env operation where eo: "eo = (env, operation)" by (cases eo)
  from reports_step [of env operation st] obtain a where
    a: "cli_reports (step env operation st) = cli_reports st @ a" by blast
  from Cons.IH [of "step env operation st"] obtain b where
    "cli_reports (run ops (step env operation st)) = cli_reports (step env operation st) @ b"
    by blast
  with a eo show ?case by simp
qed

text \<open>
  C10. \<open>report_content\<close> inserts a row with the status \<open>pending\<close> for the reporter and
  the content hash before it emits \<open>report_content\<close>: whenever it emits, the table has
  gained exactly that row. No operation of a run removes or changes a row of
  \<open>cli_reports\<close>: after any run the table is the old table followed by new rows (the
  handler of \<open>report_result\<close> and the timeout of the waiting handler included). So once a
  row for a reporter and a content hash exists, every later invocation of \<open>report\<close> by
  that reporter for that hash, after any run, does not go on to the proof of work and
  emits nothing; and when the other checks pass (not a self-report, reputation at least
  20, database working) the error it prints is that of a duplicate.
\<close>

theorem report_row_permanent:
  "(emitted (report_content env h u nonce hr st) \<noteq> emitted st \<longrightarrow>
      (\<exists>row. cli_reports (report_content env h u nonce hr st) = cli_reports st @ [row]
         \<and> rep_status row = ''pending'' \<and> rep_content_hash row = h
         \<and> rep_reported_user row = u
         \<and> current_user st = Some (rep_reporter_user row)
         \<and> emitted (report_content env h u nonce hr st)
             = emitted st @ [ReportContent h u (Some (rep_reporter_user row)) nonce hr]))
   \<and> (\<exists>new. cli_reports (run ops st) = cli_reports st @ new)
   \<and> (old \<in> set (cli_reports st) \<and> rep_reporter_user old = reporter
        \<and> rep_content_hash old = h' \<and> current_user (run ops st) = Some reporter
      \<longrightarrow> (\<forall>kind st'. handle_report_begin env' (h' # u' # rest) (run ops st) \<noteq> Waits kind st')
          \<and> emitted (after_step (handle_report_begin env' (h' # u' # rest) (run ops st)))
              = emitted (run ops st)
          \<and> (reporter \<noteq> [] \<and> u' \<noteq> reporter \<and> 20 \<le> reputation (run ops st)
                \<and> db_fault env' = None
              \<longrightarrow> last (display (after_step
                          (handle_report_begin env' (h' # u' # rest) (run ops st))))
                    = Error ''You have already reported this content''))"
proof (intro conjI impI)
  assume "emitted (report_content env h u nonce hr st) \<noteq> emitted st"
  then show "\<exists>row. cli_reports (report_content env h u nonce hr st) = cli_reports st @ [row]
         \<and> rep_status row = ''pending'' \<and> rep_content_hash row = h
         \<and> rep_reported_user row = u
         \<and> current_user st = Some (rep_reporter_user row)
         \<and> emitted (report_content env h u nonce hr st)
             = emitted st @ [ReportContent h u (Some (rep_reporter_user row)) nonce hr]"
    by (rule report_content_emits)
next
  show "\<exists>new. cli_reports (run ops st) = cli_reports st @ new" by (rule reports_run)
next
  assume a: "old \<in> set (cli_reports st) \<and> rep_reporter_user old = reporter
        \<and> rep_content_hash old = h' \<and> current_user (run ops st) = Some reporter"
  let ?st = "run ops st"
  let ?r = "handle_report_begin env' (h' # u' # rest) ?st"
  from reports_run [of ops st] a have "old \<in> set (cli_reports ?st)" by auto
  with a have cnt: "0 < count_reports reporter h' (cli_reports ?st)"
    by (auto simp: count_reports_def filter_empty_conv)
  have nowait: "?r \<noteq> Waits kind st'" for kind st'
  proof
    assume w: "?r = Waits kind st'"
    from report_reaches_wait [OF w] a cnt show False
      by (auto simp: logged_in_user_def split: if_splits)
  qed
  then show "\<forall>kind st'. ?r \<noteq> Waits kind st'" by blast
  show "emitted (after_step ?r) = emitted ?st"
  proof (cases ?r)
    case (Returns s)
    with report_rejected [of env' "h' # u' # rest" ?st s] show ?thesis
      by (simp add: after_step_def)
  next
    case (Raises e s)
    with report_rejected [of env' "h' # u' # rest" ?st s e] show ?thesis
      by (simp add: after_step_def)
  next
    case (Waits k s)
    with nowait show ?thesis by blast
  qed
  show "last (display (after_step ?r)) = Error ''You have already reported this content''"
    if b: "reporter \<noteq> [] \<and> u' \<noteq> reporter \<and> 20 \<le> reputation ?st \<and> db_fault env' = None"
  proof -
    from a b have li: "logged_in_user ?st = Some reporter"
      by (simp add: logged_in_user_def)
    from report_duplicate [OF li _ _ _ cnt, of u' env' rest] b
    show ?thesis by (auto simp: after_step_def)
  qed
qed

theorem report_row_permanent_witness:
  "(\<exists>sent row.
      run [(sample_env, Report [''H'', ''bob'']),
           (sample_env, OnPowChallenge
              \<lparr> pc_error = None, pc_blocked_until = None, pc_challenge = Some ''c'',
                pc_target_bits = Some 0, pc_action_type = Some ''report'' \<rparr>)] sample_client
        = sent
      \<and> cli_reports sent = [row] \<and> rep_status row = ''pending''
      \<and> rep_reporter_user row = ''alice'' \<and> rep_content_hash row = ''H''
      \<and> emitted sent
          = [RequestPowChallenge ''client-1'' ''report'',
             ReportContent ''H'' ''bob'' (Some ''alice'') (str_nat 0) 0]
      \<and> cli_reports
           (run [(sample_env, OnReportResult
                    \<lparr> rp_success = Some False, rp_error = Some ''rejected'',
                      rp_content_hash = None, rp_domain = None, rp_username = None,
                      rp_verified = None \<rparr>),
                 (sample_env, Resume WaitReport None)] sent) = [row]
      \<and> last (display (after_step (handle_report_begin sample_env [''H'', ''bob'']
           (run [(sample_env, OnReportResult
                    \<lparr> rp_success = Some False, rp_error = Some ''rejected'',
                      rp_content_hash = None, rp_domain = None, rp_username = None,
                      rp_verified = None \<rparr>),
                 (sample_env, Resume WaitReport None)] sent))))
          = Error ''You have already reported this content'')"
proof -
  let ?data = "\<lparr> pc_error = None, pc_blocked_until = None, pc_challenge = Some ''c'',
                pc_target_bits = Some 0, pc_action_type = Some ''report'' \<rparr>"
  let ?reply = "\<lparr> rp_success = Some False, rp_error = Some ''rejected'',
                      rp_content_hash = None, rp_domain = None, rp_username = None,
                      rp_verified = None \<rparr>"
  let ?ops = "[(sample_env, OnReportResult ?reply), (sample_env, Resume WaitReport None)]"
  have env: "db_fault sample_env = None" "hashrate_observed sample_env = 0"
    "0 < mining_fuel sample_env" "b64decode sample_env ''c'' = Inr (encode ''c'')"
    by (simp_all add: sample_env_def)
  have cl: "logged_in_user sample_client = Some ''alice''" "cli_reports sample_client = []"
    "reputation sample_client = 100" "connected sample_client" "has_loop sample_client"
    "\<not> is_solving sample_client" "emitted sample_client = []"
    "client_identifier sample_client = ''client-1''"
    by (simp_all add: sample_client_def initial_client_def logged_in_user_def)
  have mine: "mine sample_env ?data sample_client = Some 0"
    by (rule mine_target_zero [where c = "''c''" and cb = "encode ''c''"])
       (simp_all add: env cl)
  from report_accepted [OF cl(1) _ _ env(1), of "''bob''" "''H''" "[]"] cl
  obtain first where first: "handle_report_begin sample_env [''H'', ''bob''] sample_client
                               = Waits WaitReport first"
    by (auto simp: count_reports_def)
  from report_reaches_wait [OF first] cl
  have f: "pending_report first = Some (''H'', ''bob'')" "cli_reports first = []"
    "current_user first = Some ''alice''" "reputation first = 100" "connected first"
    "emitted first = [RequestPowChallenge ''client-1'' ''report'']"
    by (auto simp: logged_in_user_def split: option.splits if_splits)
  have solv: "is_solving first = is_solving sample_client"
    using first cl env
    by (auto simp: handle_report_begin_def run_async_def request_pow_challenge_def say_def
          sio_emit_def Let_def count_reports_def split: if_splits)
  have mine1: "mine sample_env ?data first = Some 0"
    using mine mine_frame [OF solv] by simp
  define s where "s = bump ''hashes_calculated'' (int 0 + 1)
             (bump ''pow_time'' (later sample_env - now sample_env)
               (bump ''pow_solved'' 1
                 (say (Info (''PoW challenge received: '' @
                    (case pc_target_bits ?data of None \<Rightarrow> ''None'' | Some t \<Rightarrow> str_int t)
                    @ '' bits'')) first)))"
  define sent where "sent = pow_challenge sample_env ?data first"
  have pc: "sent = report_content sample_env ''H'' ''bob'' (str_nat 0)
                      (hashrate_observed sample_env) s"
    unfolding sent_def s_def by (rule pow_challenge_report [OF _ _ mine1 f(1)]) simp_all
  have run1: "run [(sample_env, Report [''H'', ''bob'']), (sample_env, OnPowChallenge ?data)]
                sample_client = sent"
    using first by (simp add: step_def after_step_def sent_def)
  have sframe: "emitted s = emitted first" "cli_reports s = []"
    "current_user s = Some ''alice''" "connected s" "reputation s = 100"
    using f by (simp_all add: s_def say_frame bump_frame)
  from report_content_sent [of s sample_env "''alice''" "''H''" "''bob''" "str_nat 0"
         "hashrate_observed sample_env"] sframe env
  have sent: "emitted sent = emitted first
                @ [ReportContent ''H'' ''bob'' (Some ''alice'') (str_nat 0) 0]"
    "current_user sent = Some ''alice''" "reputation sent = 100"
    by (simp_all add: pc)
  from sent(1) sframe(1)
  have changed: "emitted (report_content sample_env ''H'' ''bob'' (str_nat 0)
                   (hashrate_observed sample_env) s) \<noteq> emitted s"
    by (simp add: pc [symmetric])
  from report_row_permanent
    [of sample_env "''H''" "''bob''" "str_nat 0" "hashrate_observed sample_env" s] changed
  obtain row where row:
    "cli_reports (report_content sample_env ''H'' ''bob'' (str_nat 0)
        (hashrate_observed sample_env) s) = cli_reports s @ [row]"
    "rep_status row = ''pending''"
    "rep_content_hash row = ''H''" "current_user s = Some (rep_reporter_user row)"
    by blast
  from row sframe have row': "cli_reports sent = [row]" "rep_reporter_user row = ''alice''"
    by (simp_all add: pc)
  from report_finish_frame [of sample_env None ?reply sent] sent
  have fin: "current_user (run ?ops sent) = Some ''alice''"
    "reputation (run ?ops sent) = 100" "cli_reports (run ?ops sent) = [row]"
    by (simp_all add: step_def row')
  have hyp: "row \<in> set (cli_reports sent) \<and> rep_reporter_user row = ''alice''
        \<and> rep_content_hash row = ''H'' \<and> current_user (run ?ops sent) = Some ''alice''"
    using row row' fin by simp
  have hyp2: "''alice'' \<noteq> [] \<and> ''bob'' \<noteq> ''alice'' \<and> 20 \<le> reputation (run ?ops sent)
                \<and> db_fault sample_env = None"
    using fin env by simp
  from report_row_permanent
    [of _ _ _ _ _ sent ?ops row "''alice''" "''H''" sample_env "''bob''" "[]"] hyp hyp2
  have dup: "last (display (after_step (handle_report_begin sample_env [''H'', ''bob'']
                (run ?ops sent)))) = Error ''You have already reported this content''"
    by blast
  from run1 row' row(2,3) sent(1) f(6) fin(3) dup show ?thesis
    by (intro exI [of _ sent] exI [of _ row]) simp
qed

end
